theory Spec2Isabelle
  imports Complex_Main "HOL-Library.Word"
begin

section \<open>JavaScript values and containers\<close>

text \<open>
  The values that \<open>JSON.parse\<close> can put into a field of a message. A number is
  kept by its numeric value (\<open>-0\<close> and \<open>0\<close> are the same key of a \<open>Map\<close> and
  are both falsy); \<open>JInf\<close> is the overflow of a literal such as \<open>1e999\<close>.
  An array or an object is kept by its identity only, which is what \<open>===\<close>,
  \<open>||\<close> and the keys of a \<open>Map\<close> look at.
\<close>

datatype jsval =
    JUndefined
  | JNull
  | JBool bool
  | JNum rat
  | JInf bool
  | JStr string
  | JObj nat

text \<open>What \<open>v || d\<close> and \<open>if (v)\<close> test.\<close>

fun truthy :: "jsval \<Rightarrow> bool" where
  "truthy JUndefined = False"
| "truthy JNull = False"
| "truthy (JBool b) = b"
| "truthy (JNum n) = (n \<noteq> 0)"
| "truthy (JInf _) = True"
| "truthy (JStr s) = (s \<noteq> [])"
| "truthy (JObj _) = True"

definition js_or :: "jsval \<Rightarrow> jsval \<Rightarrow> jsval" where
  "js_or v d = (if truthy v then v else d)"

text \<open>
  A JavaScript \<open>Map\<close> keeps its entries in insertion order; \<open>set\<close> on a key that is
  present replaces the value in place, on a new key it appends.
\<close>

type_synonym ('k, 'v) jsmap = "('k \<times> 'v) list"

fun map_set :: "('k, 'v) jsmap \<Rightarrow> 'k \<Rightarrow> 'v \<Rightarrow> ('k, 'v) jsmap" where
  "map_set [] k v = [(k, v)]"
| "map_set ((k', v') # m) k v = (if k' = k then (k, v) # m else (k', v') # map_set m k v)"

definition map_get :: "('k, 'v) jsmap \<Rightarrow> 'k \<Rightarrow> 'v option" where
  "map_get m k = map_of m k"

definition map_has :: "('k, 'v) jsmap \<Rightarrow> 'k \<Rightarrow> bool" where
  "map_has m k = (map_of m k \<noteq> None)"

definition map_values :: "('k, 'v) jsmap \<Rightarrow> 'v list" where
  "map_values m = map snd m"

text \<open>\<open>Array.prototype.find\<close>: the first element that satisfies the predicate.\<close>

fun array_find :: "('a \<Rightarrow> bool) \<Rightarrow> 'a list \<Rightarrow> 'a option" where
  "array_find P [] = None"
| "array_find P (x # xs) = (if P x then Some x else array_find P xs)"

section \<open>Objects of the media engine\<close>

text \<open>
  The engine (mediasoup) is outside the repository. Its objects are modelled by the
  fields the server reads. Producers and consumers are mutable (\<open>paused\<close>, \<open>closed\<close>,
  \<open>_transportId\<close>) and shared between several keys and closures, so they live in a
  heap and are named by references; routers and transports are never changed by the
  server and are kept as values.
\<close>

type_synonym ref = nat

record router =
  router_handle :: nat
  rtpCapabilities :: jsval

record plain_transport =
  plain_handle :: nat
  tuple_localPort :: nat
  rtcpTuple_localPort :: nat

record webrtc_transport =
  transport_id :: string
  iceParameters :: jsval
  iceCandidates :: jsval
  dtlsParameters :: jsval

record producer =
  producer_id :: string
  producer_kind :: string
  producer_paused :: bool
  producer_closed :: bool

record consumer =
  consumer_id :: string
  consumer_kind :: string
  consumer_paused :: bool
  consumer_rtpParameters :: jsval
  consumer_transportId :: "string option"

text \<open>
  A key of \<open>room.producers\<close>: the map is filled with \<open>producer.id\<close> (a string) and with
  the closure variable \<open>ssrc\<close> (a number, or \<open>null\<close> before the first detection),
  which are different keys even when they print alike.
\<close>

datatype pkey = ById string | BySsrc nat | ByNull

record room =
  room_router :: router
  transports :: "(string, webrtc_transport) jsmap"
  producers :: "(pkey, ref) jsmap"
  consumers :: "(string, ref) jsmap"

datatype error =
    SyntaxError
  | TypeError
  | RangeError
  | EngineError string
  | SocketError string

section \<open>State of the server\<close>

text \<open>
  The closure of one call of \<open>createRtpReceiver\<close> (index.js lines 33-70): the
  destructured options, the room and the ingest transport it obtained, the variables
  \<open>producer\<close>, \<open>ssrc\<close> and \<open>packetCount\<close> of line 43, the state of its two
  listening sockets, and the state of the \<open>Promise.all\<close> of line 63 and of the
  promise that \<open>createRtpReceiver\<close> returns.
\<close>

record options =
  opt_listenPort :: "nat option"
  opt_kind :: "string option"
  opt_codec :: "string option"
  opt_payloadType :: "nat option"
  opt_clockRate :: "nat option"

datatype startup = Starting | Ready | Failed error

record receiver =
  listenPort :: nat
  rcv_kind :: string
  rcv_codec :: string
  rcv_payloadType :: nat
  rcv_clockRate :: nat
  rcv_room :: ref
  rcv_transport :: plain_transport
  rtpPort :: nat
  rtcpPort :: nat
  rcv_producer :: "ref option"
  rcv_ssrc :: "nat option"
  packetCount :: nat
  rtp_bound :: bool
  rtcp_bound :: bool
  binds_fulfilled :: nat
  rcv_started :: startup

text \<open>
  The module-level variables \<open>workers\<close> and \<open>rooms\<close>; the heaps of the Room,
  producer and consumer objects that the maps and the closures point into; the
  receivers; and, for each client connection, the variable \<open>transport\<close> of line 75.
\<close>

record world =
  workers :: "nat list"
  rooms :: "(jsval, ref) jsmap"
  room_heap :: "ref \<Rightarrow> room"
  next_room :: ref
  producer_heap :: "ref \<Rightarrow> producer"
  next_producer :: ref
  consumer_heap :: "ref \<Rightarrow> consumer"
  next_consumer :: ref
  receivers :: "nat \<Rightarrow> receiver"
  next_receiver :: nat
  session_transport :: "nat \<Rightarrow> webrtc_transport option"

section \<open>Suspension points\<close>

text \<open>
  Every \<open>await\<close> of index.js ends an atomic piece of a handler. What is awaited is a
  \<open>request\<close> to the environment (the engine, a timer, a socket bind, or a promise that
  is already settled); what runs when the answer comes is a continuation \<open>kont\<close>,
  which carries the local variables that the rest of the handler still reads.
\<close>

record codec_params =
  mimeType :: string
  cp_payloadType :: nat
  cp_clockRate :: nat
  cp_parameters :: "(string \<times> jsval) list option"

datatype request =
    CreateRouter nat
  | CreatePlainTransport router
  | CreateWebRtcTransport router
  | TransportConnect webrtc_transport jsval
  | Produce plain_transport string codec_params nat
  | Consume webrtc_transport string jsval
  | ProducerResume ref
  | ConsumerResume ref
  | SetTimeout nat
  | BindSocket nat
  | Settled

datatype engval =
    V_unit
  | V_router router
  | V_plain plain_transport
  | V_webrtc webrtc_transport
  | V_producer producer
  | V_consumer consumer

datatype response = Resolved engval | Rejected error

text \<open>Who called \<open>getOrCreateRoom\<close>, and with which locals.\<close>

datatype caller =
    C_receiver options
  | C_join nat
  | C_caps nat
  | C_consume nat jsval
  | C_resume nat

datatype kont =
    K_createRouter jsval caller
  | K_room "ref option" caller
  | K_plainTransport ref options
  | K_bindRtp nat
  | K_bindRtcp nat
  | K_produce nat "8 word list"
  | K_producerResume nat ref "8 word list"
  | K_webRtcTransport nat ref
  | K_connect nat
  | K_sleep nat ref nat jsval
  | K_consume nat ref ref
  | K_consumerResume nat ref ref
  | K_resumeConsumer nat ref

text \<open>What the server sends to a client with \<open>ws.send\<close>, and its other outputs.\<close>

datatype reply =
    TransportCreated string jsval jsval jsval
  | RtpCapabilities jsval
  | TransportConnected
  | ErrorReply string
  | ConsumerCreated string string string jsval
  | ConsumerResumed

datatype effect =
    WsSend nat reply
  | RtpForward "8 word list" nat
  | RtcpForward "8 word list" nat

datatype status = Done | Thrown error | Await "(request \<times> kont) list"

type_synonym outcome = "world \<times> effect list \<times> status"

section \<open>The room registry\<close>

text \<open>
  \<open>getOrCreateRoom\<close> (index.js lines 24-31) has one suspension point, the
  \<open>await worker.createRouter(...)\<close> of line 27. The part before it is
  \<open>getOrCreateRoom_enter\<close>: it either returns the registered room, or asks the engine
  for a router, or throws because \<open>workers[0]\<close> is \<open>undefined\<close>. The part after it is
  \<open>getOrCreateRoom_resume\<close>, run when the engine has answered: it installs a new
  Room under the key (line 28) and returns \<open>rooms.get(roomId)\<close> (line 30).
\<close>

datatype enter_result =
    Existing "ref option"
  | AwaitRouter nat
  | Throws error

definition getOrCreateRoom_enter :: "world \<Rightarrow> jsval \<Rightarrow> enter_result" where
  "getOrCreateRoom_enter w roomId =
     (if \<not> map_has (rooms w) roomId then
        (case workers w of
           [] \<Rightarrow> Throws TypeError
         | worker # _ \<Rightarrow> AwaitRouter worker)
      else Existing (map_get (rooms w) roomId))"

definition new_room :: "router \<Rightarrow> room" where
  "new_room r = \<lparr>room_router = r, transports = [], producers = [], consumers = []\<rparr>"

definition getOrCreateRoom_resume :: "world \<Rightarrow> jsval \<Rightarrow> router \<Rightarrow> world \<times> ref option" where
  "getOrCreateRoom_resume w roomId r =
     (let a = next_room w;
          w' = w\<lparr>room_heap := (room_heap w)(a := new_room r),
                 next_room := Suc a,
                 rooms := map_set (rooms w) roomId a\<rparr>
      in (w', map_get (rooms w') roomId))"

text \<open>
  A call \<open>await getOrCreateRoom(roomId)\<close> from a handler: the caller is suspended in
  every case, on the router when the room is new and on the settled promise of the
  call otherwise.
\<close>

definition call_getOrCreateRoom :: "world \<Rightarrow> jsval \<Rightarrow> caller \<Rightarrow> outcome" where
  "call_getOrCreateRoom w roomId c =
     (case getOrCreateRoom_enter w roomId of
        Existing a \<Rightarrow> (w, [], Await [(Settled, K_room a c)])
      | AwaitRouter worker \<Rightarrow> (w, [], Await [(CreateRouter worker, K_createRouter roomId c)])
      | Throws e \<Rightarrow> (w, [], Thrown e))"

definition after_createRouter :: "world \<Rightarrow> jsval \<Rightarrow> caller \<Rightarrow> router \<Rightarrow> outcome" where
  "after_createRouter w roomId c r =
     (case getOrCreateRoom_resume w roomId r of
        (w', a) \<Rightarrow> (w', [], Await [(Settled, K_room a c)]))"

section \<open>The RTP ingestion pipeline\<close>

definition upd_receiver :: "nat \<Rightarrow> (receiver \<Rightarrow> receiver) \<Rightarrow> world \<Rightarrow> world" where
  "upd_receiver rid f w = w\<lparr>receivers := (receivers w)(rid := f (receivers w rid))\<rparr>"

definition upd_room :: "ref \<Rightarrow> (room \<Rightarrow> room) \<Rightarrow> world \<Rightarrow> world" where
  "upd_room a f w = w\<lparr>room_heap := (room_heap w)(a := f (room_heap w a))\<rparr>"

definition upd_producer :: "ref \<Rightarrow> (producer \<Rightarrow> producer) \<Rightarrow> world \<Rightarrow> world" where
  "upd_producer a f w = w\<lparr>producer_heap := (producer_heap w)(a := f (producer_heap w a))\<rparr>"

definition upd_consumer :: "ref \<Rightarrow> (consumer \<Rightarrow> consumer) \<Rightarrow> world \<Rightarrow> world" where
  "upd_consumer a f w = w\<lparr>consumer_heap := (consumer_heap w)(a := f (consumer_heap w a))\<rparr>"

text \<open>
  \<open>createRtpReceiver\<close>, lines 33-36: the options are destructured with their
  defaults, the room is resolved, and an ingest transport is requested from its
  router. Reading \<open>room.router\<close> of an \<open>undefined\<close> room would throw.
\<close>

definition createRtpReceiver :: "world \<Rightarrow> jsval \<Rightarrow> options \<Rightarrow> outcome" where
  "createRtpReceiver w roomId opts = call_getOrCreateRoom w roomId (C_receiver opts)"

definition receiver_after_room :: "world \<Rightarrow> ref option \<Rightarrow> options \<Rightarrow> outcome" where
  "receiver_after_room w room opts =
     (case room of
        None \<Rightarrow> (w, [], Thrown TypeError)
      | Some a \<Rightarrow>
          (w, [], Await [(CreatePlainTransport (room_router (room_heap w a)),
                          K_plainTransport a opts)]))"

text \<open>
  Lines 37-66: the local ports are read from the transport, the four sockets are
  created, the closure variables start as \<open>null\<close>, \<open>null\<close>, \<open>0\<close>, both message
  handlers are registered and both binds are started, on \<open>listenPort\<close> and on
  \<open>listenPort + 1\<close>. The function then waits on \<open>Promise.all\<close>.
\<close>

definition receiver_after_transport :: "world \<Rightarrow> ref \<Rightarrow> options \<Rightarrow> plain_transport \<Rightarrow> outcome" where
  "receiver_after_transport w a opts t =
     (let rid = next_receiver w;
          port = (case opt_listenPort opts of None \<Rightarrow> 5004 | Some n \<Rightarrow> n);
          rc = \<lparr>listenPort = port,
                rcv_kind = (case opt_kind opts of None \<Rightarrow> ''video'' | Some k \<Rightarrow> k),
                rcv_codec = (case opt_codec opts of None \<Rightarrow> ''H264'' | Some c \<Rightarrow> c),
                rcv_payloadType = (case opt_payloadType opts of None \<Rightarrow> 96 | Some n \<Rightarrow> n),
                rcv_clockRate = (case opt_clockRate opts of None \<Rightarrow> 90000 | Some n \<Rightarrow> n),
                rcv_room = a,
                rcv_transport = t,
                rtpPort = tuple_localPort t,
                rtcpPort = rtcpTuple_localPort t,
                rcv_producer = None,
                rcv_ssrc = None,
                packetCount = 0,
                rtp_bound = False,
                rtcp_bound = False,
                binds_fulfilled = 0,
                rcv_started = Starting\<rparr>;
          w' = w\<lparr>receivers := (receivers w)(rid := rc), next_receiver := Suc rid\<rparr>
      in (w', [], Await [(BindSocket port, K_bindRtp rid),
                         (BindSocket (port + 1), K_bindRtcp rid)]))"

text \<open>
  Lines 63-69. Each bind callback is \<open>err => err ? reject(err) : resolve()\<close>.
  \<open>Promise.all\<close> is fulfilled by the second \<open>resolve\<close> and rejected by the first
  \<open>reject\<close>; once it is settled a later callback changes nothing in it. When it is
  fulfilled the function returns (the receiver is ready); when it is rejected the
  \<open>await\<close> throws the error out of \<open>createRtpReceiver\<close>. The callback is written
  for both cases, and both are given here, but the library never passes it an error
  (see \<open>resume\<close> below), so \<open>bind_reject\<close> is a branch that no run takes. No line of
  index.js closes a socket, so a socket that was bound stays bound. (What becomes of
  an error that a handler throws is not modelled: no caller in index.js catches it, and
  the rest is the policy of the runtime for unhandled rejections.)
\<close>

definition bind_resolve :: "world \<Rightarrow> nat \<Rightarrow> outcome" where
  "bind_resolve w rid =
     (let n = binds_fulfilled (receivers w rid) + 1;
          w1 = upd_receiver rid (\<lambda>rc. rc\<lparr>binds_fulfilled := n\<rparr>) w
      in if n = 2 \<and> rcv_started (receivers w rid) = Starting
         then (upd_receiver rid (\<lambda>rc. rc\<lparr>rcv_started := Ready\<rparr>) w1, [], Done)
         else (w1, [], Done))"

definition bind_reject :: "world \<Rightarrow> nat \<Rightarrow> error \<Rightarrow> outcome" where
  "bind_reject w rid e =
     (if rcv_started (receivers w rid) = Starting
      then (upd_receiver rid (\<lambda>rc. rc\<lparr>rcv_started := Failed e\<rparr>) w, [], Thrown e)
      else (w, [], Done))"

definition after_bindRtp :: "world \<Rightarrow> nat \<Rightarrow> error option \<Rightarrow> outcome" where
  "after_bindRtp w rid err =
     (case err of
        Some e \<Rightarrow> bind_reject w rid e
      | None \<Rightarrow> bind_resolve (upd_receiver rid (\<lambda>rc. rc\<lparr>rtp_bound := True\<rparr>) w) rid)"

definition after_bindRtcp :: "world \<Rightarrow> nat \<Rightarrow> error option \<Rightarrow> outcome" where
  "after_bindRtcp w rid err =
     (case err of
        Some e \<Rightarrow> bind_reject w rid e
      | None \<Rightarrow> bind_resolve (upd_receiver rid (\<lambda>rc. rc\<lparr>rtcp_bound := True\<rparr>) w) rid)"

text \<open>
  \<open>packet.readUInt32BE(offset)\<close>: four bytes, the most significant first; a read
  past the end of the buffer throws.
\<close>

definition readUInt32BE :: "8 word list \<Rightarrow> nat \<Rightarrow> nat option" where
  "readUInt32BE buf off =
     (if off + 4 \<le> length buf
      then Some (unat (buf ! off) * 2 ^ 24 + unat (buf ! (off + 1)) * 2 ^ 16
                 + unat (buf ! (off + 2)) * 2 ^ 8 + unat (buf ! (off + 3)))
      else None)"

text \<open>\<open>!ssrc\<close>: true for \<open>null\<close> and for the number \<open>0\<close>.\<close>

fun not_ssrc :: "nat option \<Rightarrow> bool" where
  "not_ssrc None = True"
| "not_ssrc (Some v) = (v = 0)"

definition codecParams :: "receiver \<Rightarrow> codec_params" where
  "codecParams rc =
     (if rcv_codec rc = ''H264''
      then \<lparr>mimeType = ''video/H264'', cp_payloadType = rcv_payloadType rc,
            cp_clockRate = rcv_clockRate rc,
            cp_parameters = Some [(''packetization-mode'', JNum 1),
                                  (''profile-level-id'', JStr ''42e01f'')]\<rparr>
      else \<lparr>mimeType = ''video/'' @ rcv_codec rc, cp_payloadType = rcv_payloadType rc,
            cp_clockRate = rcv_clockRate rc, cp_parameters = None\<rparr>)"

text \<open>
  Line 57: the datagram is sent on to the engine's local RTP port when the closure
  has a producer and the port is truthy. (The log lines 49, 55, 58 and the error
  callback of \<open>send\<close>, which only logs, are not modelled.)
\<close>

definition rtp_forward :: "world \<Rightarrow> nat \<Rightarrow> 8 word list \<Rightarrow> outcome" where
  "rtp_forward w rid packet =
     (let rc = receivers w rid
      in (w, (if rcv_producer rc \<noteq> None \<and> rtpPort rc \<noteq> 0
              then [RtpForward packet (rtpPort rc)] else []), Done))"

text \<open>
  The handler of the RTP socket, lines 45-51: the counter is incremented; if
  \<open>!ssrc\<close> and the datagram has at least 12 bytes, \<open>ssrc\<close> is assigned from bytes
  8-11 and a producer is requested (the \<open>cname\<close> of the request is \<open>rtp-\<close> followed by
  the SSRC and is not kept); otherwise the handler goes on to line 57.
\<close>

definition rtp_message :: "world \<Rightarrow> nat \<Rightarrow> 8 word list \<Rightarrow> outcome" where
  "rtp_message w rid packet =
     (let w1 = upd_receiver rid (\<lambda>rc. rc\<lparr>packetCount := packetCount rc + 1\<rparr>) w
      in if not_ssrc (rcv_ssrc (receivers w1 rid)) \<and> length packet \<ge> 12 then
           (case readUInt32BE packet 8 of
              None \<Rightarrow> (w1, [], Thrown RangeError)
            | Some v \<Rightarrow>
                (let w2 = upd_receiver rid (\<lambda>rc. rc\<lparr>rcv_ssrc := Some v\<rparr>) w1;
                     rc = receivers w2 rid
                 in (w2, [], Await [(Produce (rcv_transport rc) (rcv_kind rc) (codecParams rc) v,
                                     K_produce rid packet)])))
         else rtp_forward w1 rid packet)"

text \<open>
  Lines 51-54, when the engine has answered with a producer: the object is assigned
  to the closure variable, entered into the producer map of the room of the receiver
  under \<open>producer.id\<close> and under the current value of \<open>ssrc\<close>, and resumed if it is
  paused.
\<close>

definition ssrc_key :: "nat option \<Rightarrow> pkey" where
  "ssrc_key s = (case s of None \<Rightarrow> ByNull | Some v \<Rightarrow> BySsrc v)"

definition after_produce :: "world \<Rightarrow> nat \<Rightarrow> 8 word list \<Rightarrow> producer \<Rightarrow> outcome" where
  "after_produce w rid packet p =
     (let pr = next_producer w;
          w1 = w\<lparr>producer_heap := (producer_heap w)(pr := p), next_producer := Suc pr\<rparr>;
          w2 = upd_receiver rid (\<lambda>rc. rc\<lparr>rcv_producer := Some pr\<rparr>) w1;
          rc = receivers w2 rid;
          w3 = upd_room (rcv_room rc)
                 (\<lambda>r. r\<lparr>producers := map_set (producers r) (ById (producer_id p)) pr\<rparr>) w2;
          w4 = upd_room (rcv_room rc)
                 (\<lambda>r. r\<lparr>producers := map_set (producers r) (ssrc_key (rcv_ssrc rc)) pr\<rparr>) w3
      in if producer_paused (producer_heap w4 pr)
         then (w4, [], Await [(ProducerResume pr, K_producerResume rid pr packet)])
         else rtp_forward w4 rid packet)"

text \<open>
  Contract of the engine: when \<open>producer.resume()\<close> or \<open>consumer.resume()\<close> is
  fulfilled the object is no longer paused.
\<close>

definition after_producerResume :: "world \<Rightarrow> nat \<Rightarrow> ref \<Rightarrow> 8 word list \<Rightarrow> outcome" where
  "after_producerResume w rid pr packet =
     rtp_forward (upd_producer pr (\<lambda>p. p\<lparr>producer_paused := False\<rparr>) w) rid packet"

text \<open>The handler of the RTCP socket, line 61.\<close>

definition rtcp_message :: "world \<Rightarrow> nat \<Rightarrow> 8 word list \<Rightarrow> outcome" where
  "rtcp_message w rid packet =
     (let rc = receivers w rid
      in (w, (if rtcpPort rc \<noteq> 0 then [RtcpForward packet (rtcpPort rc)] else []), Done))"

section \<open>The signaling session\<close>

text \<open>
  What \<open>JSON.parse(msg)\<close> gives (line 77): a syntax error, the value \<open>null\<close> (on
  which reading \<open>data.action\<close> throws), or a value whose four fields that the handler
  reads are given here, \<open>JUndefined\<close> for a field that is absent.
\<close>

record data =
  data_action :: jsval
  data_roomId :: jsval
  data_dtlsParameters :: jsval
  data_rtpCapabilities :: jsval

datatype wsmsg = Malformed | JsonNull | Json data

text \<open>
  The message handler up to its first \<open>await\<close> (lines 77-79, 84, 87, 90, 104). The
  conditions are tested in the order of the source; \<open>&& transport\<close> is the test that
  the variable of line 75 is not \<open>null\<close>.
\<close>

definition ws_message :: "world \<Rightarrow> nat \<Rightarrow> wsmsg \<Rightarrow> outcome" where
  "ws_message w sid msg =
     (case msg of
        Malformed \<Rightarrow> (w, [], Thrown SyntaxError)
      | JsonNull \<Rightarrow> (w, [], Thrown TypeError)
      | Json d \<Rightarrow>
          if data_action d = JStr ''join'' then
            call_getOrCreateRoom w (js_or (data_roomId d) (JStr ''default'')) (C_join sid)
          else if data_action d = JStr ''get-rtp-capabilities'' then
            call_getOrCreateRoom w (JStr ''default'') (C_caps sid)
          else if data_action d = JStr ''connect-transport'' \<and> session_transport w sid \<noteq> None then
            (w, [], Await [(TransportConnect (the (session_transport w sid))
                              (data_dtlsParameters d), K_connect sid)])
          else if data_action d = JStr ''consume'' \<and> session_transport w sid \<noteq> None then
            call_getOrCreateRoom w (JStr ''default'') (C_consume sid (data_rtpCapabilities d))
          else if data_action d = JStr ''resume-consumer'' \<and> session_transport w sid \<noteq> None then
            call_getOrCreateRoom w (JStr ''default'') (C_resume sid)
          else (w, [], Done))"

text \<open>\<open>join\<close>, lines 80-82.\<close>

definition join_after_room :: "world \<Rightarrow> nat \<Rightarrow> ref option \<Rightarrow> outcome" where
  "join_after_room w sid room =
     (case room of
        None \<Rightarrow> (w, [], Thrown TypeError)
      | Some a \<Rightarrow>
          (w, [], Await [(CreateWebRtcTransport (room_router (room_heap w a)),
                          K_webRtcTransport sid a)]))"

definition join_after_transport :: "world \<Rightarrow> nat \<Rightarrow> ref \<Rightarrow> webrtc_transport \<Rightarrow> outcome" where
  "join_after_transport w sid a t =
     (let w1 = w\<lparr>session_transport := (session_transport w)(sid := Some t)\<rparr>;
          w2 = upd_room a (\<lambda>r. r\<lparr>transports := map_set (transports r) (transport_id t) t\<rparr>) w1
      in (w2, [WsSend sid (TransportCreated (transport_id t) (iceParameters t)
                             (iceCandidates t) (dtlsParameters t))], Done))"

text \<open>\<open>get-rtp-capabilities\<close>, line 85.\<close>

definition caps_after_room :: "world \<Rightarrow> nat \<Rightarrow> ref option \<Rightarrow> outcome" where
  "caps_after_room w sid room =
     (case room of
        None \<Rightarrow> (w, [], Thrown TypeError)
      | Some a \<Rightarrow>
          (w, [WsSend sid (RtpCapabilities (rtpCapabilities (room_router (room_heap w a))))],
           Done))"

text \<open>\<open>connect-transport\<close>, line 88.\<close>

definition after_connect :: "world \<Rightarrow> nat \<Rightarrow> outcome" where
  "after_connect w sid = (w, [WsSend sid TransportConnected], Done)"

text \<open>
  \<open>consume\<close>, lines 91-102. Line 93 looks through the values of the producer map of
  the room, in insertion order, for the first producer of kind \<open>video\<close> that is not
  closed.
\<close>

definition find_video :: "world \<Rightarrow> ref \<Rightarrow> ref option" where
  "find_video w a =
     array_find (\<lambda>pr. producer_kind (producer_heap w pr) = ''video''
                      \<and> \<not> producer_closed (producer_heap w pr))
       (map_values (producers (room_heap w a)))"

text \<open>
  Line 97 on: the consumer is requested on the transport that the session has at that
  moment, for the producer that was found.
\<close>

definition consume_found :: "world \<Rightarrow> nat \<Rightarrow> ref \<Rightarrow> ref \<Rightarrow> jsval \<Rightarrow> outcome" where
  "consume_found w sid a pr caps =
     (case session_transport w sid of
        None \<Rightarrow> (w, [], Thrown TypeError)
      | Some t \<Rightarrow>
          (w, [], Await [(Consume t (producer_id (producer_heap w pr)) caps,
                          K_consume sid a pr)]))"

text \<open>
  One round of the loop of lines 92-95, entered with the counter \<open>i\<close> and no producer:
  when \<open>i < 50\<close> the producers are searched, and the handler sleeps 100 ms if none is
  found, leaves the loop towards line 97 otherwise; when \<open>i\<close> has reached 50 the loop
  is over with no producer and line 96 reports the error and returns.
\<close>

definition consume_loop :: "world \<Rightarrow> nat \<Rightarrow> ref \<Rightarrow> nat \<Rightarrow> jsval \<Rightarrow> outcome" where
  "consume_loop w sid a i caps =
     (if i < 50 then
        (case find_video w a of
           None \<Rightarrow> (w, [], Await [(SetTimeout 100, K_sleep sid a i caps)])
         | Some pr \<Rightarrow> consume_found w sid a pr caps)
      else (w, [WsSend sid (ErrorReply ''No producer available'')], Done))"

definition consume_after_room :: "world \<Rightarrow> nat \<Rightarrow> ref option \<Rightarrow> jsval \<Rightarrow> outcome" where
  "consume_after_room w sid room caps =
     (case room of
        None \<Rightarrow> (w, [], Thrown TypeError)
      | Some a \<Rightarrow> consume_loop w sid a 0 caps)"

definition after_sleep :: "world \<Rightarrow> nat \<Rightarrow> ref \<Rightarrow> nat \<Rightarrow> jsval \<Rightarrow> outcome" where
  "after_sleep w sid a i caps = consume_loop w sid a (Suc i) caps"

definition consume_reply :: "world \<Rightarrow> nat \<Rightarrow> ref \<Rightarrow> ref \<Rightarrow> outcome" where
  "consume_reply w sid cr pr =
     (let c = consumer_heap w cr
      in (w, [WsSend sid (ConsumerCreated (consumer_id c) (producer_id (producer_heap w pr))
                            (consumer_kind c) (consumer_rtpParameters c))], Done))"

definition after_consume :: "world \<Rightarrow> nat \<Rightarrow> ref \<Rightarrow> ref \<Rightarrow> consumer \<Rightarrow> outcome" where
  "after_consume w sid a pr c =
     (let cr = next_consumer w;
          w1 = w\<lparr>consumer_heap := (consumer_heap w)(cr := c), next_consumer := Suc cr\<rparr>;
          w2 = upd_room a (\<lambda>r. r\<lparr>consumers := map_set (consumers r) (consumer_id c) cr\<rparr>) w1
      in case session_transport w2 sid of
           None \<Rightarrow> (w2, [], Thrown TypeError)
         | Some t \<Rightarrow>
             (let w3 = upd_consumer cr
                         (\<lambda>c. c\<lparr>consumer_transportId := Some (transport_id t)\<rparr>) w2
              in if consumer_paused (consumer_heap w3 cr)
                 then (w3, [], Await [(ConsumerResume cr, K_consumerResume sid cr pr)])
                 else consume_reply w3 sid cr pr))"

definition after_consumerResume :: "world \<Rightarrow> nat \<Rightarrow> ref \<Rightarrow> ref \<Rightarrow> outcome" where
  "after_consumerResume w sid cr pr =
     consume_reply (upd_consumer cr (\<lambda>c. c\<lparr>consumer_paused := False\<rparr>) w) sid cr pr"

text \<open>
  \<open>resume-consumer\<close>, lines 105-107: the first consumer of the room, in insertion
  order, whose \<open>_transportId\<close> is the id of the transport of the session. (Reading
  \<open>transport.id\<close> happens inside the callback of \<open>find\<close>, so a \<open>null\<close> transport would
  throw only if the room has a consumer.)
\<close>

definition find_consumer :: "world \<Rightarrow> ref \<Rightarrow> webrtc_transport \<Rightarrow> ref option" where
  "find_consumer w a t =
     array_find (\<lambda>cr. consumer_transportId (consumer_heap w cr) = Some (transport_id t))
       (map_values (consumers (room_heap w a)))"

definition resume_after_room :: "world \<Rightarrow> nat \<Rightarrow> ref option \<Rightarrow> outcome" where
  "resume_after_room w sid room =
     (case room of
        None \<Rightarrow> (w, [], Thrown TypeError)
      | Some a \<Rightarrow>
          (case session_transport w sid of
             None \<Rightarrow>
               (if consumers (room_heap w a) = []
                then (w, [WsSend sid ConsumerResumed], Done)
                else (w, [], Thrown TypeError))
           | Some t \<Rightarrow>
               (case find_consumer w a t of
                  None \<Rightarrow> (w, [WsSend sid ConsumerResumed], Done)
                | Some cr \<Rightarrow>
                    if consumer_paused (consumer_heap w cr)
                    then (w, [], Await [(ConsumerResume cr, K_resumeConsumer sid cr)])
                    else (w, [WsSend sid ConsumerResumed], Done))))"

definition after_resumeConsumer :: "world \<Rightarrow> nat \<Rightarrow> ref \<Rightarrow> outcome" where
  "after_resumeConsumer w sid cr =
     (upd_consumer cr (\<lambda>c. c\<lparr>consumer_paused := False\<rparr>) w, [WsSend sid ConsumerResumed], Done)"

section \<open>The event loop\<close>

text \<open>The caller of \<open>getOrCreateRoom\<close> goes on with the room it was given.\<close>

definition after_room :: "world \<Rightarrow> ref option \<Rightarrow> caller \<Rightarrow> outcome" where
  "after_room w room c =
     (case c of
        C_receiver opts \<Rightarrow> receiver_after_room w room opts
      | C_join sid \<Rightarrow> join_after_room w sid room
      | C_caps sid \<Rightarrow> caps_after_room w sid room
      | C_consume sid caps \<Rightarrow> consume_after_room w sid room caps
      | C_resume sid \<Rightarrow> resume_after_room w sid room)"

text \<open>
  A suspended handler is resumed with the answer to what it awaited. A rejected
  promise throws at the \<open>await\<close>, and no handler of index.js has a \<open>try\<close>, so the
  handler ends there. A bind is different: \<open>socket.bind(port, callback)\<close> of the
  \<open>dgram\<close> library calls the callback only when the socket is listening, and with no
  argument; when the bind fails the library drops the callback and emits \<open>error\<close> on
  the socket, for which it has itself registered a listener. So after a failed bind
  nothing of index.js runs: the state is the same and the promise of that bind stays
  pending for ever. An answer of the wrong shape for the continuation is not an answer
  the environment gives (\<open>None\<close>).
\<close>

definition resume :: "world \<Rightarrow> kont \<Rightarrow> response \<Rightarrow> outcome option" where
  "resume w k r =
     (case k of
        K_createRouter roomId c \<Rightarrow>
          (case r of Resolved (V_router rt) \<Rightarrow> Some (after_createRouter w roomId c rt)
                   | Rejected e \<Rightarrow> Some (w, [], Thrown e)
                   | _ \<Rightarrow> None)
      | K_room room c \<Rightarrow>
          (case r of Resolved V_unit \<Rightarrow> Some (after_room w room c) | _ \<Rightarrow> None)
      | K_plainTransport a opts \<Rightarrow>
          (case r of Resolved (V_plain t) \<Rightarrow> Some (receiver_after_transport w a opts t)
                   | Rejected e \<Rightarrow> Some (w, [], Thrown e)
                   | _ \<Rightarrow> None)
      | K_bindRtp rid \<Rightarrow>
          (case r of Resolved V_unit \<Rightarrow> Some (after_bindRtp w rid None)
                   | Rejected e \<Rightarrow> Some (w, [], Done)
                   | _ \<Rightarrow> None)
      | K_bindRtcp rid \<Rightarrow>
          (case r of Resolved V_unit \<Rightarrow> Some (after_bindRtcp w rid None)
                   | Rejected e \<Rightarrow> Some (w, [], Done)
                   | _ \<Rightarrow> None)
      | K_produce rid packet \<Rightarrow>
          (case r of Resolved (V_producer p) \<Rightarrow> Some (after_produce w rid packet p)
                   | Rejected e \<Rightarrow> Some (w, [], Thrown e)
                   | _ \<Rightarrow> None)
      | K_producerResume rid pr packet \<Rightarrow>
          (case r of Resolved V_unit \<Rightarrow> Some (after_producerResume w rid pr packet)
                   | Rejected e \<Rightarrow> Some (w, [], Thrown e)
                   | _ \<Rightarrow> None)
      | K_webRtcTransport sid a \<Rightarrow>
          (case r of Resolved (V_webrtc t) \<Rightarrow> Some (join_after_transport w sid a t)
                   | Rejected e \<Rightarrow> Some (w, [], Thrown e)
                   | _ \<Rightarrow> None)
      | K_connect sid \<Rightarrow>
          (case r of Resolved V_unit \<Rightarrow> Some (after_connect w sid)
                   | Rejected e \<Rightarrow> Some (w, [], Thrown e)
                   | _ \<Rightarrow> None)
      | K_sleep sid a i caps \<Rightarrow>
          (case r of Resolved V_unit \<Rightarrow> Some (after_sleep w sid a i caps) | _ \<Rightarrow> None)
      | K_consume sid a pr \<Rightarrow>
          (case r of Resolved (V_consumer c) \<Rightarrow> Some (after_consume w sid a pr c)
                   | Rejected e \<Rightarrow> Some (w, [], Thrown e)
                   | _ \<Rightarrow> None)
      | K_consumerResume sid cr pr \<Rightarrow>
          (case r of Resolved V_unit \<Rightarrow> Some (after_consumerResume w sid cr pr)
                   | Rejected e \<Rightarrow> Some (w, [], Thrown e)
                   | _ \<Rightarrow> None)
      | K_resumeConsumer sid cr \<Rightarrow>
          (case r of Resolved V_unit \<Rightarrow> Some (after_resumeConsumer w sid cr)
                   | Rejected e \<Rightarrow> Some (w, [], Thrown e)
                   | _ \<Rightarrow> None))"

text \<open>
  The whole server: the state, the suspended handlers, everything sent so far, and
  every request made to the environment so far. An event is a call of
  \<open>createRtpReceiver\<close>, a datagram on a bound socket of a receiver, a message of a
  client, or the answer to a suspended handler; events run one at a time, each to its
  next \<open>await\<close>.
\<close>

record system =
  sys_world :: world
  pending :: "kont list"
  trace :: "effect list"
  calls :: "request list"

datatype event =
    Ev_start jsval options
  | Ev_rtp nat "8 word list"
  | Ev_rtcp nat "8 word list"
  | Ev_ws nat wsmsg
  | Ev_answer nat response

fun awaited :: "status \<Rightarrow> (request \<times> kont) list" where
  "awaited (Await ks) = ks"
| "awaited _ = []"

definition absorb :: "system \<Rightarrow> outcome \<Rightarrow> system" where
  "absorb s out =
     (case out of (w, effs, st) \<Rightarrow>
        s\<lparr>sys_world := w,
          pending := pending s @ map snd (awaited st),
          trace := trace s @ effs,
          calls := calls s @ map fst (awaited st)\<rparr>)"

definition remove_nth :: "nat \<Rightarrow> 'a list \<Rightarrow> 'a list" where
  "remove_nth i xs = take i xs @ drop (Suc i) xs"

definition step :: "system \<Rightarrow> event \<Rightarrow> system option" where
  "step s ev =
     (let w = sys_world s in
      case ev of
        Ev_start roomId opts \<Rightarrow> Some (absorb s (createRtpReceiver w roomId opts))
      | Ev_rtp rid packet \<Rightarrow>
          if rid < next_receiver w \<and> rtp_bound (receivers w rid)
          then Some (absorb s (rtp_message w rid packet)) else None
      | Ev_rtcp rid packet \<Rightarrow>
          if rid < next_receiver w \<and> rtcp_bound (receivers w rid)
          then Some (absorb s (rtcp_message w rid packet)) else None
      | Ev_ws sid msg \<Rightarrow> Some (absorb s (ws_message w sid msg))
      | Ev_answer i r \<Rightarrow>
          if i < length (pending s) then
            (case resume w (pending s ! i) r of
               None \<Rightarrow> None
             | Some out \<Rightarrow> Some (absorb (s\<lparr>pending := remove_nth i (pending s)\<rparr>) out))
          else None)"

fun run :: "system \<Rightarrow> event list \<Rightarrow> system option" where
  "run s [] = Some s"
| "run s (ev # evs) = (case step s ev of None \<Rightarrow> None | Some s' \<Rightarrow> run s' evs)"





section \<open>Notions used to state properties of whole runs\<close>

text \<open>
  Room \<open>a\<close> is allocated and its \<open>transports\<close> map holds the transport \<open>t\<close> under
  the id of \<open>t\<close>.
\<close>

definition holds_transport :: "world \<Rightarrow> ref \<Rightarrow> webrtc_transport \<Rightarrow> bool" where
  "holds_transport w a t =
     (a < next_room w \<and> map_get (transports (room_heap w a)) (transport_id t) = Some t)"

text \<open>
  The event is an answer of the engine that carries an interactive transport with the
  id \<open>i\<close>. (The engine names its transports by fresh UUIDs; an event of this kind for
  an id that is in use does not happen.)
\<close>

fun reissues :: "string \<Rightarrow> event \<Rightarrow> bool" where
  "reissues i (Ev_answer j (Resolved (V_webrtc t))) = (transport_id t = i)"
| "reissues i _ = False"

text \<open>The Rooms that a suspended handler holds in its local variables.\<close>

fun kont_rooms :: "kont \<Rightarrow> ref list" where
  "kont_rooms (K_room (Some a) c) = [a]"
| "kont_rooms (K_plainTransport a opts) = [a]"
| "kont_rooms (K_webRtcTransport sid a) = [a]"
| "kont_rooms (K_sleep sid a i caps) = [a]"
| "kont_rooms (K_consume sid a pr) = [a]"
| "kont_rooms _ = []"

text \<open>
  Every Room that the registry or a suspended handler refers to has been allocated.
\<close>

definition rooms_allocated :: "system \<Rightarrow> bool" where
  "rooms_allocated s =
     ((\<forall>k \<in> set (pending s). \<forall>a \<in> set (kont_rooms k). a < next_room (sys_world s))
      \<and> (\<forall>a \<in> set (map_values (rooms (sys_world s))). a < next_room (sys_world s)))"

text \<open>
  What one atomic piece of a handler must leave behind for \<open>rooms_allocated\<close> to go
  on holding: it frees no Room, and the registry and the continuations it suspends
  refer to allocated Rooms only.
\<close>

definition out_allocated :: "world \<Rightarrow> outcome \<Rightarrow> bool" where
  "out_allocated w out =
     (next_room w \<le> next_room (fst out)
      \<and> (\<forall>a. a \<in> set (map_values (rooms (fst out))) \<longrightarrow> a < next_room (fst out))
      \<and> (\<forall>rq k a. (rq, k) \<in> set (awaited (snd (snd out))) \<longrightarrow> a \<in> set (kont_rooms k)
            \<longrightarrow> a < next_room (fst out)))"

definition registry_allocated :: "world \<Rightarrow> bool" where
  "registry_allocated w = (\<forall>a. a \<in> set (map_values (rooms w)) \<longrightarrow> a < next_room w)"

text \<open>The receiver \<open>rid\<close> exists and has detected the SSRC \<open>v\<close>, which is not 0.\<close>

definition ssrc_fixed :: "world \<Rightarrow> nat \<Rightarrow> nat \<Rightarrow> bool" where
  "ssrc_fixed w rid v = (rid < next_receiver w \<and> rcv_ssrc (receivers w rid) = Some v \<and> v \<noteq> 0)"

text \<open>
  The answer to a bind that succeeded (\<open>None\<close>) or failed with an error, and the state
  of the server after a suspended handler has been given an answer.
\<close>

definition bind_answer :: "error option \<Rightarrow> response" where
  "bind_answer err = (case err of None \<Rightarrow> Resolved V_unit | Some e \<Rightarrow> Rejected e)"

definition after_answer :: "world \<Rightarrow> kont \<Rightarrow> response \<Rightarrow> world" where
  "after_answer w k r = (case resume w k r of None \<Rightarrow> w | Some out \<Rightarrow> fst out)"

text \<open>The receiver \<open>rid\<close> exists and its RTP socket, or its RTCP socket, is bound.\<close>

definition rtp_listening :: "world \<Rightarrow> nat \<Rightarrow> bool" where
  "rtp_listening w rid = (rid < next_receiver w \<and> rtp_bound (receivers w rid))"

definition rtcp_listening :: "world \<Rightarrow> nat \<Rightarrow> bool" where
  "rtcp_listening w rid = (rid < next_receiver w \<and> rtcp_bound (receivers w rid))"

text \<open>
  The receiver \<open>rid\<close> exists, it is not ready, and no bind callback of it is still to
  come.
\<close>

definition stalled :: "system \<Rightarrow> nat \<Rightarrow> bool" where
  "stalled s rid =
     (rid < next_receiver (sys_world s)
      \<and> rcv_started (receivers (sys_world s) rid) \<noteq> Ready
      \<and> K_bindRtp rid \<notin> set (pending s)
      \<and> K_bindRtcp rid \<notin> set (pending s))"

text \<open>
  What one atomic piece of a handler must leave behind for \<open>stalled\<close> to go on
  holding of the receiver \<open>rid\<close>.
\<close>

definition quiet_for :: "nat \<Rightarrow> world \<Rightarrow> outcome \<Rightarrow> bool" where
  "quiet_for rid w out =
     (rid < next_receiver (fst out)
      \<and> rcv_started (receivers (fst out) rid) \<noteq> Ready
      \<and> K_bindRtp rid \<notin> snd ` set (awaited (snd (snd out)))
      \<and> K_bindRtcp rid \<notin> snd ` set (awaited (snd (snd out))))"

section \<open>The state at start-up and some concrete runs\<close>

text \<open>
  The state once \<open>initWorkers\<close> (lines 15-22) has pushed its one worker: no room, no
  receiver, no session with a transport. The heaps hold placeholders at the
  addresses that are not allocated yet.
\<close>

definition no_room :: room where
  "no_room = new_room \<lparr>router_handle = 0, rtpCapabilities = JUndefined\<rparr>"

definition no_producer :: producer where
  "no_producer = \<lparr>producer_id = [], producer_kind = [], producer_paused = False,
                  producer_closed = False\<rparr>"

definition no_consumer :: consumer where
  "no_consumer = \<lparr>consumer_id = [], consumer_kind = [], consumer_paused = False,
                  consumer_rtpParameters = JUndefined, consumer_transportId = None\<rparr>"

definition no_receiver :: receiver where
  "no_receiver = \<lparr>listenPort = 0, rcv_kind = [], rcv_codec = [], rcv_payloadType = 0,
                  rcv_clockRate = 0, rcv_room = 0,
                  rcv_transport = \<lparr>plain_handle = 0, tuple_localPort = 0,
                                   rtcpTuple_localPort = 0\<rparr>,
                  rtpPort = 0, rtcpPort = 0, rcv_producer = None, rcv_ssrc = None,
                  packetCount = 0, rtp_bound = False, rtcp_bound = False,
                  binds_fulfilled = 0, rcv_started = Starting\<rparr>"

definition boot_world :: "nat \<Rightarrow> world" where
  "boot_world worker =
     \<lparr>workers = [worker], rooms = [], room_heap = (\<lambda>_. no_room), next_room = 0,
      producer_heap = (\<lambda>_. no_producer), next_producer = 0,
      consumer_heap = (\<lambda>_. no_consumer), next_consumer = 0,
      receivers = (\<lambda>_. no_receiver), next_receiver = 0,
      session_transport = (\<lambda>_. None)\<rparr>"

definition boot :: "nat \<Rightarrow> system" where
  "boot worker = \<lparr>sys_world = boot_world worker, pending = [], trace = [], calls = []\<rparr>"

definition no_options :: options where
  "no_options = \<lparr>opt_listenPort = None, opt_kind = None, opt_codec = None,
                 opt_payloadType = None, opt_clockRate = None\<rparr>"

definition message :: "string \<Rightarrow> jsval \<Rightarrow> wsmsg" where
  "message act room =
     Json \<lparr>data_action = JStr act, data_roomId = room, data_dtlsParameters = JUndefined,
           data_rtpCapabilities = JUndefined\<rparr>"

definition router_A :: router where
  "router_A = \<lparr>router_handle = 1, rtpCapabilities = JObj 1\<rparr>"

definition router_B :: router where
  "router_B = \<lparr>router_handle = 2, rtpCapabilities = JObj 2\<rparr>"

definition ingest_transport :: plain_transport where
  "ingest_transport = \<lparr>plain_handle = 3, tuple_localPort = 40000, rtcpTuple_localPort = 40001\<rparr>"

text \<open>
  Line 114, \<open>createRtpReceiver('default')\<close>, up to the answers to its two binds: the
  router, the return of \<open>getOrCreateRoom\<close>, the ingest transport, the RTP bind, the
  RTCP bind.
\<close>

definition start_default :: "response \<Rightarrow> response \<Rightarrow> event list" where
  "start_default rtp_bind rtcp_bind =
     [Ev_start (JStr ''default'') no_options,
      Ev_answer 0 (Resolved (V_router router_A)),
      Ev_answer 0 (Resolved V_unit),
      Ev_answer 0 (Resolved (V_plain ingest_transport)),
      Ev_answer 0 rtp_bind,
      Ev_answer 0 rtcp_bind]"

text \<open>
  Two clients join the new room \<open>r\<close>; the second message arrives while the router
  asked for by the first is still awaited; then the engine answers both.
\<close>

definition race_events :: "event list" where
  "race_events =
     [Ev_ws 1 (message ''join'' (JStr ''r'')),
      Ev_ws 2 (message ''join'' (JStr ''r'')),
      Ev_answer 0 (Resolved (V_router router_A)),
      Ev_answer 0 (Resolved (V_router router_B))]"

text \<open>
  An RTP datagram of 12 bytes whose bytes 8-11 are \<open>12 34 56 78\<close> (hexadecimal).
\<close>

definition packet_1234 :: "8 word list" where
  "packet_1234 = [128, 96, 0, 1, 0, 0, 0, 0, 18, 52, 86, 120]"

text \<open>
  The default receiver starts, its RTP bind succeeds and its RTCP bind fails with
  \<open>EADDRINUSE\<close>; then a datagram arrives on the RTP socket.
\<close>

definition half_bound :: "event list" where
  "half_bound =
     start_default (Resolved V_unit) (Rejected (SocketError ''EADDRINUSE''))
     @ [Ev_rtp 0 packet_1234]"

text \<open>The receiver of the default room just after line 66 has started both binds.\<close>

definition binding_world :: world where
  "binding_world = fst (receiver_after_transport (boot_world 7) 0 no_options ingest_transport)"

text \<open>
  A state with the default room registered as Room 0, a client 1 that has joined
  with transport \<open>t1\<close>, one video producer \<open>p1\<close> in the room under its id and its
  SSRC, and one consumer \<open>c1\<close> of client 1 that is still paused.
\<close>

definition client_transport :: webrtc_transport where
  "client_transport = \<lparr>transport_id = ''t1'', iceParameters = JObj 10, iceCandidates = JObj 11,
                        dtlsParameters = JObj 12\<rparr>"






text \<open>
  Client 1 joins the default room, which does not exist yet, and gets the transport
  \<open>t1\<close>; then the same client joins again and gets \<open>t2\<close>.
\<close>

definition second_transport :: webrtc_transport where
  "second_transport = \<lparr>transport_id = ''t2'', iceParameters = JObj 13, iceCandidates = JObj 14,
                        dtlsParameters = JObj 15\<rparr>"

definition first_join :: "event list" where
  "first_join =
     [Ev_ws 1 (message ''join'' JUndefined),
      Ev_answer 0 (Resolved (V_router router_A)),
      Ev_answer 0 (Resolved V_unit)]"

definition second_join :: "event list" where
  "second_join =
     [Ev_ws 1 (message ''join'' JUndefined),
      Ev_answer 0 (Resolved V_unit),
      Ev_answer 0 (Resolved (V_webrtc second_transport))]"

text \<open>
  Two RTP datagrams of 12 bytes with sequence numbers 1 and 2 whose SSRC field is 0,
  and two producers as the engine may answer them.
\<close>

definition zero_ssrc_1 :: "8 word list" where
  "zero_ssrc_1 = [128, 96, 0, 1, 0, 0, 0, 0, 0, 0, 0, 0]"

definition zero_ssrc_2 :: "8 word list" where
  "zero_ssrc_2 = [128, 96, 0, 2, 0, 0, 0, 0, 0, 0, 0, 0]"

definition producer_1 :: producer where
  "producer_1 = \<lparr>producer_id = ''p1'', producer_kind = ''video'', producer_paused = False,
                 producer_closed = False\<rparr>"

definition producer_2 :: producer where
  "producer_2 = \<lparr>producer_id = ''p2'', producer_kind = ''video'', producer_paused = False,
                 producer_closed = False\<rparr>"

definition h264 :: codec_params where
  "h264 = \<lparr>mimeType = ''video/H264'', cp_payloadType = 96, cp_clockRate = 90000,
           cp_parameters = Some [(''packetization-mode'', JNum 1),
                                 (''profile-level-id'', JStr ''42e01f'')]\<rparr>"

text \<open>
  The default receiver is listening; a stream with SSRC 0 starts. The engine answers
  the request made for the first datagram with \<open>p1\<close>. In \<open>zero_ssrc_twice\<close> it answers
  the request made for the second datagram with \<open>p2\<close>; in \<open>zero_ssrc_refused\<close> it
  rejects that request.
\<close>

definition zero_ssrc_twice :: "event list" where
  "zero_ssrc_twice =
     start_default (Resolved V_unit) (Resolved V_unit)
     @ [Ev_rtp 0 zero_ssrc_1,
        Ev_answer 0 (Resolved (V_producer producer_1)),
        Ev_rtp 0 zero_ssrc_2,
        Ev_answer 0 (Resolved (V_producer producer_2))]"

definition zero_ssrc_refused :: "event list" where
  "zero_ssrc_refused =
     start_default (Resolved V_unit) (Resolved V_unit)
     @ [Ev_rtp 0 zero_ssrc_1,
        Ev_answer 0 (Resolved (V_producer producer_1)),
        Ev_rtp 0 zero_ssrc_2,
        Ev_answer 0 (Rejected (EngineError ''ssrc already exists''))]"

text \<open>
  On a server with no room yet, client 1 joins with the empty string as \<open>roomId\<close>, and
  client 2 asks for the capabilities while the router of the join is awaited; the
  engine answers both requests, and both handlers go on with the room they were given.
\<close>

definition default_race :: "event list" where
  "default_race =
     [Ev_ws 1 (message ''join'' (JStr [])),
      Ev_ws 2 (message ''get-rtp-capabilities'' JUndefined),
      Ev_answer 0 (Resolved (V_router router_A)),
      Ev_answer 0 (Resolved (V_router router_B)),
      Ev_answer 0 (Resolved V_unit),
      Ev_answer 0 (Resolved V_unit)]"

text \<open>
  Line 114 starts the default receiver, and client 1 joins the default room while the
  router of the receiver is awaited. Both routers arrive; the receiver goes on to
  listen and gets the first datagram of a stream, for which the engine answers with
  the producer \<open>p1\<close>.
\<close>

definition startup_race :: "event list" where
  "startup_race =
     [Ev_start (JStr ''default'') no_options,
      Ev_ws 1 (message ''join'' JUndefined),
      Ev_answer 0 (Resolved (V_router router_A)),
      Ev_answer 0 (Resolved (V_router router_B)),
      Ev_answer 0 (Resolved V_unit),
      Ev_answer 1 (Resolved (V_plain ingest_transport)),
      Ev_answer 1 (Resolved V_unit),
      Ev_answer 1 (Resolved V_unit),
      Ev_rtp 0 packet_1234,
      Ev_answer 1 (Resolved (V_producer producer_1))]"

section \<open>Basic facts\<close>

lemmas run_defs = step_def absorb_def remove_nth_def resume_def Let_def

lemmas room_defs = call_getOrCreateRoom_def getOrCreateRoom_enter_def
  getOrCreateRoom_resume_def after_createRouter_def map_has_def map_get_def new_room_def

lemmas receiver_defs = createRtpReceiver_def receiver_after_room_def receiver_after_transport_def
  after_bindRtp_def after_bindRtcp_def bind_resolve_def bind_reject_def upd_receiver_def
  after_room_def no_options_def ingest_transport_def

lemmas rtp_defs = rtp_message_def rtp_forward_def after_produce_def after_producerResume_def
  rtcp_message_def readUInt32BE_def codecParams_def ssrc_key_def upd_room_def upd_producer_def

lemmas scenario_defs = start_default_def boot_def boot_world_def router_A_def
  zero_ssrc_1_def zero_ssrc_2_def producer_1_def producer_2_def h264_def

lemma set_remove_nth: "set (remove_nth i xs) \<subseteq> set xs"
  by (auto simp: remove_nth_def dest: in_set_takeD in_set_dropD)

lemma map_of_map_set: "map_of (map_set m k v) = (map_of m)(k \<mapsto> v)"
  by (induction m) (auto simp: fun_eq_iff)

lemma map_get_map_set: "map_get (map_set m k v) k' = (if k' = k then Some v else map_get m k')"
  by (simp add: map_get_def map_of_map_set)

lemma map_has_map_set: "map_has (map_set m k v) k' = (k' = k \<or> map_has m k')"
  by (simp add: map_has_def map_of_map_set)

text \<open>Pieces of handlers that leave the state, or the Rooms, as they are.\<close>

lemma call_getOrCreateRoom_world: "fst (call_getOrCreateRoom w roomId c) = w"
  by (simp add: call_getOrCreateRoom_def split: enter_result.splits)

lemma ws_message_world: "fst (ws_message w sid msg) = w"
  by (simp add: ws_message_def call_getOrCreateRoom_world split: wsmsg.splits)

lemma rtp_forward_world: "fst (rtp_forward w rid packet) = w"
  by (simp add: rtp_forward_def Let_def)

lemma rtp_message_rooms:
  "next_room (fst (rtp_message w rid packet)) = next_room w
   \<and> room_heap (fst (rtp_message w rid packet)) = room_heap w"
  by (simp add: rtp_message_def rtp_forward_def upd_receiver_def Let_def split: option.splits)

lemma rtcp_message_world: "fst (rtcp_message w rid packet) = w"
  by (simp add: rtcp_message_def Let_def)

lemma createRtpReceiver_world: "fst (createRtpReceiver w roomId opts) = w"
  by (simp add: createRtpReceiver_def call_getOrCreateRoom_world)

lemma after_room_world: "fst (after_room w room c) = w"
  by (simp add: after_room_def receiver_after_room_def join_after_room_def caps_after_room_def
      consume_after_room_def consume_loop_def consume_found_def resume_after_room_def
      split: caller.splits option.splits)

lemma sys_world_absorb: "sys_world (absorb s out) = fst out"
  by (cases out) (simp add: absorb_def)

section \<open>Room registry: concurrent first-time calls\<close>

text \<open>
  What the two pieces of \<open>getOrCreateRoom\<close> do. A call that starts when a Room is
  registered under \<open>r\<close> returns that Room. A call that starts when \<open>r\<close> is not
  registered asks the first worker for a router, whether or not another first-time
  call for \<open>r\<close> is in flight. When the router arrives, in whatever state \<open>w'\<close> the
  registry is by then, the call allocates a new Room with that router, registers it
  under \<open>r\<close> in place of what is there, leaves every other Room as it is, and returns
  the new Room; a second first-time call that resolves next returns another Room.
\<close>

lemma getOrCreateRoom_contexts:
  "(map_get (rooms w) r = Some a \<longrightarrow> getOrCreateRoom_enter w r = Existing (Some a))
   \<and> (\<not> map_has (rooms w) r \<and> workers w = wk # wks \<longrightarrow>
        getOrCreateRoom_enter w r = AwaitRouter wk)
   \<and> snd (getOrCreateRoom_resume w' r rt) = Some (next_room w')
   \<and> map_get (rooms (fst (getOrCreateRoom_resume w' r rt))) r = Some (next_room w')
   \<and> room_heap (fst (getOrCreateRoom_resume w' r rt)) (next_room w') = new_room rt
   \<and> (\<forall>b. b \<noteq> next_room w' \<longrightarrow>
         room_heap (fst (getOrCreateRoom_resume w' r rt)) b = room_heap w' b)
   \<and> next_room (fst (getOrCreateRoom_resume w' r rt)) = Suc (next_room w')
   \<and> snd (getOrCreateRoom_resume (fst (getOrCreateRoom_resume w' r rt)) r rt')
       = Some (Suc (next_room w'))
   \<and> room_router (room_heap
         (fst (getOrCreateRoom_resume (fst (getOrCreateRoom_resume w' r rt)) r rt'))
         (next_room w')) = rt"
  by (simp add: getOrCreateRoom_enter_def getOrCreateRoom_resume_def map_has_def map_get_def
      map_of_map_set new_room_def Let_def)

text \<open>
  The same race at start-up: line 114 resolves the default room for the receiver while
  a client joins it. The receiver keeps Room 0, the registry ends with Room 1 under
  \<open>default\<close>, and the producer of the stream is entered in Room 0 only: the room that
  \<open>consume\<close> looks in never gets it.
\<close>

lemma startup_race_strands_producer:
  "run (boot 7) startup_race \<noteq> None
   \<and> rcv_room (receivers (sys_world (the (run (boot 7) startup_race))) 0) = 0
   \<and> map_get (rooms (sys_world (the (run (boot 7) startup_race)))) (JStr ''default'') = Some 1
   \<and> find_video (sys_world (the (run (boot 7) startup_race))) 0 = Some 0
   \<and> find_video (sys_world (the (run (boot 7) startup_race))) 1 = None
   \<and> pending (the (run (boot 7) startup_race)) = [K_room (Some 1) (C_join 1)]"
  by (simp add: startup_race_def scenario_defs run_defs room_defs receiver_defs rtp_defs
      message_def ws_message_def js_or_def packet_1234_def find_video_def map_values_def)

text \<open>
  Claim C1 fails on the code: the test of line 25 keeps one Room per key only for
  calls that do not overlap. Two clients join the new room \<open>r\<close>, the second while
  the router of the first is awaited. Both calls of \<open>getOrCreateRoom\<close> find the key
  absent and both ask the only worker for a router. When the answers come, the
  first call installs Room 0 with router A and returns it to the first client; the
  second call installs Room 1 with router B under the same key and returns that to
  the second client. The two callers hold different Rooms with different routers,
  and the registry has held two routing contexts for \<open>r\<close>.
\<close>

theorem race_two_contexts:
  "run (boot 7) race_events \<noteq> None
   \<and> pending (the (run (boot 7) race_events))
       = [K_room (Some 0) (C_join 1), K_room (Some 1) (C_join 2)]
   \<and> room_router (room_heap (sys_world (the (run (boot 7) race_events))) 0) = router_A
   \<and> room_router (room_heap (sys_world (the (run (boot 7) race_events))) 1) = router_B
   \<and> router_A \<noteq> router_B
   \<and> calls (the (run (boot 7) race_events))
       = [CreateRouter 7, CreateRouter 7, Settled, Settled]
   \<and> map_get (rooms (sys_world (the (run (boot 7) (take 3 race_events))))) (JStr ''r'') = Some 0
   \<and> map_get (rooms (sys_world (the (run (boot 7) race_events)))) (JStr ''r'') = Some 1"
  by (simp add: race_events_def boot_def boot_world_def message_def run_defs room_defs
      ws_message_def js_or_def router_A_def router_B_def)

section \<open>Receiver start-up: the two binds\<close>

lemma resume_listening:
  assumes "resume w k r = Some out"
  shows "(rtp_listening w rid \<longrightarrow> rtp_listening (fst out) rid)
         \<and> (rtcp_listening w rid \<longrightarrow> rtcp_listening (fst out) rid)"
proof (cases k)
  case (K_createRouter roomId c)
  with assms show ?thesis
    by (auto simp: resume_def after_createRouter_def getOrCreateRoom_resume_def Let_def
        rtp_listening_def rtcp_listening_def split: response.splits engval.splits)
next
  case (K_room room c)
  with assms show ?thesis
    by (auto simp: resume_def after_room_world split: response.splits engval.splits)
next
  case (K_plainTransport a' opts)
  with assms show ?thesis
    by (auto simp: resume_def receiver_after_transport_def Let_def
        rtp_listening_def rtcp_listening_def split: response.splits engval.splits)
next
  case (K_bindRtp rid')
  with assms show ?thesis
    by (auto simp: resume_def after_bindRtp_def bind_resolve_def bind_reject_def upd_receiver_def
        Let_def rtp_listening_def rtcp_listening_def
        split: response.splits engval.splits if_splits)
next
  case (K_bindRtcp rid')
  with assms show ?thesis
    by (auto simp: resume_def after_bindRtcp_def bind_resolve_def bind_reject_def upd_receiver_def
        Let_def rtp_listening_def rtcp_listening_def
        split: response.splits engval.splits if_splits)
next
  case (K_produce rid' packet)
  with assms show ?thesis
    by (auto simp: resume_def after_produce_def rtp_forward_def upd_receiver_def upd_room_def
        Let_def rtp_listening_def rtcp_listening_def
        split: response.splits engval.splits if_splits)
next
  case (K_producerResume rid' pr packet)
  with assms show ?thesis
    by (auto simp: resume_def after_producerResume_def rtp_forward_def upd_producer_def
        Let_def rtp_listening_def rtcp_listening_def split: response.splits engval.splits)
next
  case (K_webRtcTransport sid a')
  with assms show ?thesis
    by (auto simp: resume_def join_after_transport_def upd_room_def
        Let_def rtp_listening_def rtcp_listening_def split: response.splits engval.splits)
next
  case (K_connect sid)
  with assms show ?thesis
    by (auto simp: resume_def after_connect_def split: response.splits engval.splits)
next
  case (K_sleep sid a' i caps)
  with assms show ?thesis
    by (auto simp: resume_def after_sleep_def consume_loop_def consume_found_def
        split: response.splits engval.splits option.splits)
next
  case (K_consume sid a' pr)
  with assms show ?thesis
    by (auto simp: resume_def after_consume_def consume_reply_def upd_room_def upd_consumer_def
        Let_def rtp_listening_def rtcp_listening_def
        split: response.splits engval.splits option.splits if_splits)
next
  case (K_consumerResume sid cr pr)
  with assms show ?thesis
    by (auto simp: resume_def after_consumerResume_def consume_reply_def upd_consumer_def
        Let_def rtp_listening_def rtcp_listening_def split: response.splits engval.splits)
next
  case (K_resumeConsumer sid cr)
  with assms show ?thesis
    by (auto simp: resume_def after_resumeConsumer_def upd_consumer_def
        Let_def rtp_listening_def rtcp_listening_def split: response.splits engval.splits)
qed

lemma rtp_message_listening:
  "(rtp_listening w rid \<longrightarrow> rtp_listening (fst (rtp_message w rid' packet)) rid)
   \<and> (rtcp_listening w rid \<longrightarrow> rtcp_listening (fst (rtp_message w rid' packet)) rid)"
  by (auto simp: rtp_listening_def rtcp_listening_def rtp_message_def rtp_forward_def
      upd_receiver_def Let_def split: option.splits)

lemma step_listening:
  assumes "step s ev = Some s'"
  shows "(rtp_listening (sys_world s) rid \<longrightarrow> rtp_listening (sys_world s') rid)
         \<and> (rtcp_listening (sys_world s) rid \<longrightarrow> rtcp_listening (sys_world s') rid)"
proof (cases ev)
  case (Ev_start roomId opts)
  with assms show ?thesis
    by (auto simp: step_def sys_world_absorb createRtpReceiver_world)
next
  case (Ev_rtp rid' packet)
  with assms rtp_message_listening [of "sys_world s" rid rid' packet] show ?thesis
    by (auto simp: step_def sys_world_absorb Let_def split: if_splits)
next
  case (Ev_rtcp rid' packet)
  with assms show ?thesis
    by (auto simp: step_def sys_world_absorb rtcp_message_world Let_def split: if_splits)
next
  case (Ev_ws sid msg)
  with assms show ?thesis
    by (auto simp: step_def sys_world_absorb ws_message_world)
next
  case (Ev_answer i r)
  with assms obtain out where out: "resume (sys_world s) (pending s ! i) r = Some out"
    and s': "s' = absorb (s\<lparr>pending := remove_nth i (pending s)\<rparr>) out"
    by (auto simp: step_def Let_def split: if_splits option.splits)
  from resume_listening [OF out, of rid] s' show ?thesis
    by (simp add: sys_world_absorb)
qed

lemma run_listening:
  assumes "run s evs = Some s'"
  shows "(rtp_listening (sys_world s) rid \<longrightarrow> rtp_listening (sys_world s') rid)
         \<and> (rtcp_listening (sys_world s) rid \<longrightarrow> rtcp_listening (sys_world s') rid)"
  using assms
proof (induction evs arbitrary: s)
  case Nil
  then show ?case by simp
next
  case (Cons ev evs)
  from Cons.prems obtain s1 where s1: "step s ev = Some s1" and rest: "run s1 evs = Some s'"
    by (auto split: option.splits)
  from step_listening [OF s1, of rid] Cons.IH [OF rest] show ?case
    by blast
qed

text \<open>
  A receiver that is not ready and has no bind callback to come never becomes ready:
  only the bind callbacks of a receiver touch its start-up state, and new ones are
  made for a new receiver only.
\<close>

lemma call_getOrCreateRoom_quiet:
  assumes "rid < next_receiver w" and "rcv_started (receivers w rid) \<noteq> Ready"
  shows "quiet_for rid w (call_getOrCreateRoom w roomId c)"
  using assms
  by (auto simp: quiet_for_def call_getOrCreateRoom_def getOrCreateRoom_enter_def
      split: list.splits)

lemma ws_message_quiet:
  assumes "rid < next_receiver w" and "rcv_started (receivers w rid) \<noteq> Ready"
  shows "quiet_for rid w (ws_message w sid msg)"
  using assms call_getOrCreateRoom_quiet [OF assms]
  by (auto simp: ws_message_def split: wsmsg.splits) (auto simp: quiet_for_def)

lemma rtp_message_quiet:
  assumes "rid < next_receiver w" and "rcv_started (receivers w rid) \<noteq> Ready"
  shows "quiet_for rid w (rtp_message w rid' packet)"
  using assms
  by (auto simp: quiet_for_def rtp_message_def rtp_forward_def upd_receiver_def Let_def
      split: option.splits)

lemma rtcp_message_quiet:
  assumes "rid < next_receiver w" and "rcv_started (receivers w rid) \<noteq> Ready"
  shows "quiet_for rid w (rtcp_message w rid' packet)"
  using assms by (auto simp: quiet_for_def rtcp_message_def Let_def)

lemma after_room_quiet:
  assumes "rid < next_receiver w" and "rcv_started (receivers w rid) \<noteq> Ready"
  shows "quiet_for rid w (after_room w room c)"
  using assms
  by (auto simp: quiet_for_def after_room_def receiver_after_room_def
      join_after_room_def caps_after_room_def consume_after_room_def consume_loop_def
      consume_found_def resume_after_room_def split: caller.splits option.splits if_splits)

lemma resume_quiet:
  assumes "resume w k r = Some out" and "k \<noteq> K_bindRtp rid" and "k \<noteq> K_bindRtcp rid"
    and "rid < next_receiver w" and "rcv_started (receivers w rid) \<noteq> Ready"
  shows "quiet_for rid w out"
proof (cases k)
  case (K_createRouter roomId c)
  with assms show ?thesis
    by (auto simp: resume_def after_createRouter_def getOrCreateRoom_resume_def Let_def
        quiet_for_def split: response.splits engval.splits if_splits)
next
  case (K_room room c)
  with assms after_room_quiet [OF assms(4,5)] show ?thesis
    by (auto simp: resume_def split: response.splits engval.splits if_splits)
next
  case (K_plainTransport a' opts)
  with assms show ?thesis
    by (auto simp: resume_def receiver_after_transport_def Let_def quiet_for_def
        split: response.splits engval.splits if_splits)
next
  case (K_bindRtp rid')
  with assms show ?thesis
    by (auto simp: resume_def after_bindRtp_def bind_resolve_def bind_reject_def upd_receiver_def
        Let_def quiet_for_def split: response.splits engval.splits if_splits)
next
  case (K_bindRtcp rid')
  with assms show ?thesis
    by (auto simp: resume_def after_bindRtcp_def bind_resolve_def bind_reject_def upd_receiver_def
        Let_def quiet_for_def split: response.splits engval.splits if_splits)
next
  case (K_produce rid' packet)
  with assms show ?thesis
    by (auto simp: resume_def after_produce_def rtp_forward_def upd_receiver_def upd_room_def
        Let_def quiet_for_def split: response.splits engval.splits if_splits)
next
  case (K_producerResume rid' pr packet)
  with assms show ?thesis
    by (auto simp: resume_def after_producerResume_def rtp_forward_def upd_producer_def
        Let_def quiet_for_def split: response.splits engval.splits if_splits)
next
  case (K_webRtcTransport sid a')
  with assms show ?thesis
    by (auto simp: resume_def join_after_transport_def upd_room_def
        Let_def quiet_for_def split: response.splits engval.splits if_splits)
next
  case (K_connect sid)
  with assms show ?thesis
    by (auto simp: resume_def after_connect_def quiet_for_def
        split: response.splits engval.splits if_splits)
next
  case (K_sleep sid a' i caps)
  with assms show ?thesis
    by (auto simp: resume_def after_sleep_def consume_loop_def consume_found_def quiet_for_def
        split: response.splits engval.splits option.splits if_splits)
next
  case (K_consume sid a' pr)
  with assms show ?thesis
    by (auto simp: resume_def after_consume_def consume_reply_def upd_room_def upd_consumer_def
        Let_def quiet_for_def split: response.splits engval.splits option.splits if_splits)
next
  case (K_consumerResume sid cr pr)
  with assms show ?thesis
    by (auto simp: resume_def after_consumerResume_def consume_reply_def upd_consumer_def
        Let_def quiet_for_def split: response.splits engval.splits if_splits)
next
  case (K_resumeConsumer sid cr)
  with assms show ?thesis
    by (auto simp: resume_def after_resumeConsumer_def upd_consumer_def
        Let_def quiet_for_def split: response.splits engval.splits if_splits)
qed

lemma absorb_stalled:
  assumes "quiet_for rid (sys_world s) out" and "K_bindRtp rid \<notin> set ks"
    and "K_bindRtcp rid \<notin> set ks"
  shows "stalled (absorb (s\<lparr>pending := ks\<rparr>) out) rid"
  using assms by (cases out) (auto simp: stalled_def quiet_for_def absorb_def)

lemma absorb_stalled_same:
  assumes "quiet_for rid (sys_world s) out" and "stalled s rid"
  shows "stalled (absorb s out) rid"
  using absorb_stalled [OF assms(1), of "pending s"] assms(2) by (simp add: stalled_def)

lemma step_stalled:
  assumes "step s ev = Some s'" and "stalled s rid"
  shows "stalled s' rid"
proof -
  from assms(2) have ex: "rid < next_receiver (sys_world s)"
    and nr: "rcv_started (receivers (sys_world s) rid) \<noteq> Ready"
    and no_rtp: "K_bindRtp rid \<notin> set (pending s)" and no_rtcp: "K_bindRtcp rid \<notin> set (pending s)"
    by (simp_all add: stalled_def)
  show ?thesis
  proof (cases ev)
    case (Ev_start roomId opts)
    with assms call_getOrCreateRoom_quiet [OF ex nr] show ?thesis
      by (auto simp: step_def createRtpReceiver_def intro!: absorb_stalled_same)
  next
    case (Ev_rtp rid' packet)
    with assms rtp_message_quiet [OF ex nr] show ?thesis
      by (auto simp: step_def Let_def split: if_splits intro!: absorb_stalled_same)
  next
    case (Ev_rtcp rid' packet)
    with assms rtcp_message_quiet [OF ex nr] show ?thesis
      by (auto simp: step_def Let_def split: if_splits intro!: absorb_stalled_same)
  next
    case (Ev_ws sid msg)
    with assms ws_message_quiet [OF ex nr] show ?thesis
      by (auto simp: step_def intro!: absorb_stalled_same)
  next
    case (Ev_answer i r)
    with assms obtain out where i: "i < length (pending s)"
      and out: "resume (sys_world s) (pending s ! i) r = Some out"
      and s': "s' = absorb (s\<lparr>pending := remove_nth i (pending s)\<rparr>) out"
      by (auto simp: step_def Let_def split: if_splits option.splits)
    from i no_rtp no_rtcp have k: "pending s ! i \<noteq> K_bindRtp rid" "pending s ! i \<noteq> K_bindRtcp rid"
      by (auto dest: nth_mem)
    from no_rtp no_rtcp set_remove_nth [of i "pending s"]
    have rest: "K_bindRtp rid \<notin> set (remove_nth i (pending s))"
      "K_bindRtcp rid \<notin> set (remove_nth i (pending s))"
      by auto
    from absorb_stalled [OF resume_quiet [OF out k ex nr] rest] s' show ?thesis
      by simp
  qed
qed

lemma run_stalled:
  assumes "run s evs = Some s'" and "stalled s rid"
  shows "stalled s' rid"
  using assms
  by (induction evs arbitrary: s) (auto split: option.splits dest: step_stalled)

text \<open>
  Claim C3, as stated, fails. The default receiver is started; the RTP bind
  succeeds and the RTCP bind fails. The RTP socket is not released: it stays bound
  with its handler, and the datagram that arrives next is counted and starts the
  creation of a producer, while the RTCP socket is not bound and the receiver has not
  become ready.
\<close>

theorem rtcp_bind_fails_rtp_stays_bound:
  "run (boot 7) half_bound \<noteq> None
   \<and> rtp_bound (receivers (sys_world (the (run (boot 7) half_bound))) 0)
   \<and> \<not> rtcp_bound (receivers (sys_world (the (run (boot 7) half_bound))) 0)
   \<and> rcv_started (receivers (sys_world (the (run (boot 7) half_bound))) 0) \<noteq> Ready
   \<and> packetCount (receivers (sys_world (the (run (boot 7) half_bound))) 0) = 1
   \<and> pending (the (run (boot 7) half_bound)) = [K_produce 0 packet_1234]"
  by (simp add: half_bound_def start_default_def boot_def boot_world_def run_defs room_defs
      receiver_defs rtp_defs packet_1234_def router_A_def)

text \<open>
  Claim C3, amended to what lines 63-66 do. For a receiver whose two binds are
  under way, with the answers \<open>e1\<close> to the RTP bind and \<open>e2\<close> to the RTCP bind
  (\<open>None\<close> for success) coming in either order: the receiver becomes ready exactly
  when both binds succeed, and each socket is bound afterwards exactly if its own bind
  succeeded (or it was bound before), whatever became of the other bind. Nothing is
  ever released: in every run of the server a socket of a receiver that is bound stays
  bound. And a receiver that is not ready when no bind callback of it is left to come,
  as after a failed bind, is not ready after any run.
\<close>

theorem bind_outcomes:
  "(rcv_started (receivers w rid) = Starting \<and> binds_fulfilled (receivers w rid) = 0 \<longrightarrow>
      rcv_started (receivers (after_answer (after_answer w (K_bindRtp rid) (bind_answer e1))
                                (K_bindRtcp rid) (bind_answer e2)) rid)
        = (if e1 = None \<and> e2 = None then Ready else Starting)
      \<and> rcv_started (receivers (after_answer (after_answer w (K_bindRtcp rid) (bind_answer e2))
                                  (K_bindRtp rid) (bind_answer e1)) rid)
        = (if e1 = None \<and> e2 = None then Ready else Starting)
      \<and> rtp_bound (receivers (after_answer (after_answer w (K_bindRtp rid) (bind_answer e1))
                                (K_bindRtcp rid) (bind_answer e2)) rid)
        = (rtp_bound (receivers w rid) \<or> e1 = None)
      \<and> rtcp_bound (receivers (after_answer (after_answer w (K_bindRtp rid) (bind_answer e1))
                                 (K_bindRtcp rid) (bind_answer e2)) rid)
        = (rtcp_bound (receivers w rid) \<or> e2 = None)
      \<and> rtp_bound (receivers (after_answer (after_answer w (K_bindRtcp rid) (bind_answer e2))
                                (K_bindRtp rid) (bind_answer e1)) rid)
        = (rtp_bound (receivers w rid) \<or> e1 = None)
      \<and> rtcp_bound (receivers (after_answer (after_answer w (K_bindRtcp rid) (bind_answer e2))
                                 (K_bindRtp rid) (bind_answer e1)) rid)
        = (rtcp_bound (receivers w rid) \<or> e2 = None))
   \<and> (run s evs = Some s' \<and> rtp_listening (sys_world s) rid' \<longrightarrow>
        rtp_listening (sys_world s') rid')
   \<and> (run s evs = Some s' \<and> rtcp_listening (sys_world s) rid' \<longrightarrow>
        rtcp_listening (sys_world s') rid')
   \<and> (run s evs = Some s' \<and> stalled s rid' \<longrightarrow> stalled s' rid')"
proof -
  have binds: "rcv_started (receivers w rid) = Starting \<and> binds_fulfilled (receivers w rid) = 0 \<longrightarrow>
      rcv_started (receivers (after_answer (after_answer w (K_bindRtp rid) (bind_answer e1))
                                (K_bindRtcp rid) (bind_answer e2)) rid)
        = (if e1 = None \<and> e2 = None then Ready else Starting)
      \<and> rcv_started (receivers (after_answer (after_answer w (K_bindRtcp rid) (bind_answer e2))
                                  (K_bindRtp rid) (bind_answer e1)) rid)
        = (if e1 = None \<and> e2 = None then Ready else Starting)
      \<and> rtp_bound (receivers (after_answer (after_answer w (K_bindRtp rid) (bind_answer e1))
                                (K_bindRtcp rid) (bind_answer e2)) rid)
        = (rtp_bound (receivers w rid) \<or> e1 = None)
      \<and> rtcp_bound (receivers (after_answer (after_answer w (K_bindRtp rid) (bind_answer e1))
                                 (K_bindRtcp rid) (bind_answer e2)) rid)
        = (rtcp_bound (receivers w rid) \<or> e2 = None)
      \<and> rtp_bound (receivers (after_answer (after_answer w (K_bindRtcp rid) (bind_answer e2))
                                (K_bindRtp rid) (bind_answer e1)) rid)
        = (rtp_bound (receivers w rid) \<or> e1 = None)
      \<and> rtcp_bound (receivers (after_answer (after_answer w (K_bindRtcp rid) (bind_answer e2))
                                 (K_bindRtp rid) (bind_answer e1)) rid)
        = (rtcp_bound (receivers w rid) \<or> e2 = None)"
    by (cases e1; cases e2)
       (simp_all add: after_answer_def bind_answer_def resume_def after_bindRtp_def
          after_bindRtcp_def bind_resolve_def upd_receiver_def Let_def)
  have rtp: "run s evs = Some s' \<and> rtp_listening (sys_world s) rid' \<longrightarrow>
        rtp_listening (sys_world s') rid'"
    using run_listening [of s evs s' rid'] by blast
  have rtcp: "run s evs = Some s' \<and> rtcp_listening (sys_world s) rid' \<longrightarrow>
        rtcp_listening (sys_world s') rid'"
    using run_listening [of s evs s' rid'] by blast
  have stall: "run s evs = Some s' \<and> stalled s rid' \<longrightarrow> stalled s' rid'"
    using run_stalled [of s evs s' rid'] by blast
  show ?thesis
    by (rule conjI [OF binds conjI [OF rtp conjI [OF rtcp stall]]])
qed

theorem bind_outcomes_witness:
  "rcv_started (receivers
      (after_answer (after_answer binding_world (K_bindRtp 0) (Resolved V_unit))
         (K_bindRtcp 0) (Resolved V_unit)) 0) = Ready
   \<and> rcv_started (receivers
      (after_answer (after_answer binding_world (K_bindRtp 0) (Resolved V_unit))
         (K_bindRtcp 0) (Rejected (SocketError ''EADDRINUSE''))) 0) = Starting
   \<and> rtp_bound (receivers
      (after_answer (after_answer binding_world (K_bindRtp 0) (Resolved V_unit))
         (K_bindRtcp 0) (Rejected (SocketError ''EADDRINUSE''))) 0)
   \<and> rtp_listening (sys_world (the (run (boot 7) half_bound))) 0
   \<and> stalled (the (run (boot 7) half_bound)) 0"
proof -
  let ?failed = "the (run (boot 7) (take 6 half_bound))"
  let ?mid = "the (run (boot 7) (take 5 half_bound))"
  let ?end = "the (run (boot 7) half_bound)"
  have starting: "rcv_started (receivers binding_world 0) = Starting
                  \<and> binds_fulfilled (receivers binding_world 0) = 0"
    by (simp add: binding_world_def receiver_after_transport_def boot_world_def Let_def)
  have ok: "bind_answer None = Resolved V_unit"
    and ko: "bind_answer (Some (SocketError ''EADDRINUSE'')) = Rejected (SocketError ''EADDRINUSE'')"
    by (simp_all add: bind_answer_def)
  from bind_outcomes [where w = binding_world and rid = 0 and ?e1.0 = None and ?e2.0 = None]
    starting
  have both: "rcv_started (receivers
      (after_answer (after_answer binding_world (K_bindRtp 0) (Resolved V_unit))
         (K_bindRtcp 0) (Resolved V_unit)) 0) = Ready"
    unfolding ok by simp
  from bind_outcomes [where w = binding_world and rid = 0 and ?e1.0 = None
      and ?e2.0 = "Some (SocketError ''EADDRINUSE'')"] starting
  have one: "rcv_started (receivers
      (after_answer (after_answer binding_world (K_bindRtp 0) (Resolved V_unit))
         (K_bindRtcp 0) (Rejected (SocketError ''EADDRINUSE''))) 0) = Starting
   \<and> rtp_bound (receivers
      (after_answer (after_answer binding_world (K_bindRtp 0) (Resolved V_unit))
         (K_bindRtcp 0) (Rejected (SocketError ''EADDRINUSE''))) 0)"
    unfolding ok ko by simp
  have mid: "run (boot 7) (take 5 half_bound) = Some ?mid"
    and listening: "rtp_listening (sys_world ?mid) 0"
    and rest: "run ?mid (drop 5 half_bound) = Some ?end"
    by (simp_all add: half_bound_def start_default_def boot_def boot_world_def run_defs room_defs
        receiver_defs rtp_defs packet_1234_def router_A_def rtp_listening_def)
  from bind_outcomes [where s = ?mid and evs = "drop 5 half_bound" and s' = ?end and rid' = 0]
    rest listening
  have bound: "rtp_listening (sys_world ?end) 0"
    by blast
  have failed: "run (boot 7) (take 6 half_bound) = Some ?failed"
    and stuck: "stalled ?failed 0"
    and last: "run ?failed (drop 6 half_bound) = Some ?end"
    by (simp_all add: half_bound_def start_default_def boot_def boot_world_def run_defs room_defs
        receiver_defs rtp_defs packet_1234_def router_A_def stalled_def)
  from bind_outcomes [where s = ?failed and evs = "drop 6 half_bound" and s' = ?end and rid' = 0]
    last stuck
  have "stalled ?end 0"
    by blast
  with both one bound show ?thesis
    by blast
qed

section \<open>Message dispatch\<close>

text \<open>
  Claim C7. A session whose \<open>transport\<close> is still \<open>null\<close> receives a message with
  action \<open>connect-transport\<close>, \<open>consume\<close> or \<open>resume-consumer\<close>: the handler returns
  at once, the state is the same, nothing is sent and nothing is awaited, so the
  whole server is as it was before the message.
\<close>

theorem no_transport_no_op:
  assumes "session_transport (sys_world s) sid = None"
    and "data_action d \<in> {JStr ''connect-transport'', JStr ''consume'', JStr ''resume-consumer''}"
  shows "ws_message (sys_world s) sid (Json d) = (sys_world s, [], Done)
         \<and> step s (Ev_ws sid (Json d)) = Some s"
  using assms by (auto simp: ws_message_def step_def absorb_def)

theorem no_transport_no_op_witness:
  "step (boot 7) (Ev_ws 1 (message ''consume'' JUndefined)) = Some (boot 7)
   \<and> step (boot 7) (Ev_ws 1 (message ''connect-transport'' JUndefined)) = Some (boot 7)
   \<and> step (boot 7) (Ev_ws 1 (message ''resume-consumer'' JUndefined)) = Some (boot 7)"
proof -
  have none: "session_transport (sys_world (boot 7)) 1 = None"
    by (simp add: boot_def boot_world_def)
  have "step (boot 7) (Ev_ws 1 (Json \<lparr>data_action = JStr act, data_roomId = JUndefined,
            data_dtlsParameters = JUndefined, data_rtpCapabilities = JUndefined\<rparr>)) = Some (boot 7)"
    if "act \<in> {''connect-transport'', ''consume'', ''resume-consumer''}" for act
    using no_transport_no_op [OF none, of "\<lparr>data_action = JStr act, data_roomId = JUndefined,
            data_dtlsParameters = JUndefined, data_rtpCapabilities = JUndefined\<rparr>"] that
    by auto
  then show ?thesis
    by (simp add: message_def)
qed

text \<open>
  Claim C10. A message that is well-formed JSON and whose action is none of the five
  names: the handler returns at once, the state is the same, nothing is sent and
  nothing is awaited, so the whole server is as it was before the message. This
  covers every JSON value but \<open>null\<close>, the field \<open>action\<close> being absent or of any
  kind. For the JSON value \<open>null\<close> reading \<open>data.action\<close> throws a \<open>TypeError\<close> out
  of the handler, again with the state the same and nothing sent or awaited.
\<close>

theorem unknown_action_no_op:
  "(data_action d \<notin> {JStr ''join'', JStr ''get-rtp-capabilities'', JStr ''connect-transport'',
                      JStr ''consume'', JStr ''resume-consumer''} \<longrightarrow>
      ws_message (sys_world s) sid (Json d) = (sys_world s, [], Done)
      \<and> step s (Ev_ws sid (Json d)) = Some s)
   \<and> ws_message (sys_world s) sid JsonNull = (sys_world s, [], Thrown TypeError)
   \<and> step s (Ev_ws sid JsonNull) = Some s"
  by (auto simp: ws_message_def step_def absorb_def)

theorem unknown_action_no_op_witness:
  "step (boot 7) (Ev_ws 1 (message ''leave'' JUndefined)) = Some (boot 7)
   \<and> ws_message (boot_world 7) 1 (message ''leave'' JUndefined) = (boot_world 7, [], Done)"
proof -
  have other: "data_action \<lparr>data_action = JStr ''leave'', data_roomId = JUndefined,
            data_dtlsParameters = JUndefined, data_rtpCapabilities = JUndefined\<rparr>
        \<notin> {JStr ''join'', JStr ''get-rtp-capabilities'', JStr ''connect-transport'',
            JStr ''consume'', JStr ''resume-consumer''}"
    by simp
  have world: "sys_world (boot 7) = boot_world 7"
    by (simp add: boot_def)
  from unknown_action_no_op [of "\<lparr>data_action = JStr ''leave'', data_roomId = JUndefined,
            data_dtlsParameters = JUndefined, data_rtpCapabilities = JUndefined\<rparr>" "boot 7" 1]
    other
  have "ws_message (sys_world (boot 7)) 1 (message ''leave'' JUndefined)
          = (sys_world (boot 7), [], Done)
        \<and> step (boot 7) (Ev_ws 1 (message ''leave'' JUndefined)) = Some (boot 7)"
    unfolding message_def by blast
  with world show ?thesis
    by simp
qed

text \<open>
  Line 79: in a \<open>join\<close> whose \<open>roomId\<close> is falsy, the room is resolved with the key
  \<open>default\<close>, and the handler does exactly what it does for \<open>roomId: "default"\<close>. The
  absent field, \<open>null\<close>, the empty string, \<open>0\<close> and \<open>false\<close> are falsy. It is the key
  with which \<open>get-rtp-capabilities\<close>, and \<open>consume\<close> and \<open>resume-consumer\<close> of a session
  with a transport, resolve their room.
\<close>

lemma falsy_roomId_default:
  "(data_action d = JStr ''join'' \<and> \<not> truthy (data_roomId d) \<longrightarrow>
      ws_message w sid (Json d) = call_getOrCreateRoom w (JStr ''default'') (C_join sid)
      \<and> ws_message w sid (Json d) = ws_message w sid (Json (d\<lparr>data_roomId := JStr ''default''\<rparr>)))
   \<and> \<not> truthy JUndefined \<and> \<not> truthy JNull \<and> \<not> truthy (JStr [])
   \<and> \<not> truthy (JNum 0) \<and> \<not> truthy (JBool False)
   \<and> (data_action d = JStr ''get-rtp-capabilities'' \<longrightarrow>
        ws_message w sid (Json d) = call_getOrCreateRoom w (JStr ''default'') (C_caps sid))
   \<and> (data_action d = JStr ''consume'' \<and> session_transport w sid \<noteq> None \<longrightarrow>
        ws_message w sid (Json d)
          = call_getOrCreateRoom w (JStr ''default'') (C_consume sid (data_rtpCapabilities d)))
   \<and> (data_action d = JStr ''resume-consumer'' \<and> session_transport w sid \<noteq> None \<longrightarrow>
        ws_message w sid (Json d) = call_getOrCreateRoom w (JStr ''default'') (C_resume sid))"
  by (simp add: ws_message_def js_or_def)

text \<open>
  When the default room is registered, a \<open>join\<close> with a falsy \<open>roomId\<close> and the three
  other requests are all given that Room.
\<close>

lemma default_room_shared:
  assumes "map_get (rooms w) (JStr ''default'') = Some a"
  shows "(data_action d = JStr ''join'' \<and> \<not> truthy (data_roomId d) \<longrightarrow>
            ws_message w sid (Json d) = (w, [], Await [(Settled, K_room (Some a) (C_join sid))]))
       \<and> (data_action d = JStr ''get-rtp-capabilities'' \<longrightarrow>
            ws_message w sid (Json d) = (w, [], Await [(Settled, K_room (Some a) (C_caps sid))]))
       \<and> (data_action d = JStr ''consume'' \<and> session_transport w sid \<noteq> None \<longrightarrow>
            ws_message w sid (Json d)
              = (w, [], Await [(Settled,
                                K_room (Some a) (C_consume sid (data_rtpCapabilities d)))]))
       \<and> (data_action d = JStr ''resume-consumer'' \<and> session_transport w sid \<noteq> None \<longrightarrow>
            ws_message w sid (Json d) = (w, [], Await [(Settled, K_room (Some a) (C_resume sid))]))"
  using assms
  by (simp add: ws_message_def js_or_def call_getOrCreateRoom_def getOrCreateRoom_enter_def
      map_has_def map_get_def)

text \<open>
  Claim C9 fails when the default room is not registered yet and the requests
  overlap. Client 1 joins with the empty string as \<open>roomId\<close>; the key is \<open>default\<close>, the
  room is new, and a router is awaited. Client 2 asks for the capabilities meanwhile;
  line 84 finds the key \<open>default\<close> absent too and asks for a second router. The join
  is given Room 0 and requests its transport from router A; the capabilities sent to
  client 2 are those of router B, of Room 1, which is the room left registered under
  \<open>default\<close>. The join did not resolve to the room that \<open>get-rtp-capabilities\<close> used.
\<close>

theorem falsy_join_other_room:
  "run (boot 7) default_race \<noteq> None
   \<and> pending (the (run (boot 7) default_race)) = [K_webRtcTransport 1 0]
   \<and> calls (the (run (boot 7) default_race))
       = [CreateRouter 7, CreateRouter 7, Settled, Settled, CreateWebRtcTransport router_A]
   \<and> trace (the (run (boot 7) default_race))
       = [WsSend 2 (RtpCapabilities (rtpCapabilities router_B))]
   \<and> room_router (room_heap (sys_world (the (run (boot 7) default_race))) 0) = router_A
   \<and> room_router (room_heap (sys_world (the (run (boot 7) default_race))) 1) = router_B
   \<and> router_A \<noteq> router_B
   \<and> map_get (rooms (sys_world (the (run (boot 7) default_race)))) (JStr ''default'') = Some 1"
  by (simp add: default_race_def boot_def boot_world_def message_def run_defs room_defs
      ws_message_def js_or_def router_A_def router_B_def after_room_def join_after_room_def
      caps_after_room_def)

section \<open>Producer discovery\<close>

















section \<open>Resuming a consumer\<close>







section \<open>Interactive transports are kept\<close>

lemma holds_transport_frame:
  assumes "holds_transport w a t" and "next_room w \<le> next_room w'"
    and "transports (room_heap w' a) = transports (room_heap w a)"
  shows "holds_transport w' a t"
  using assms by (simp add: holds_transport_def)

lemma resume_keeps:
  assumes "resume w k r = Some out" and "holds_transport w a t"
    and "\<forall>t'. r = Resolved (V_webrtc t') \<longrightarrow> transport_id t' \<noteq> transport_id t"
  shows "holds_transport (fst out) a t"
proof (cases k)
  case (K_createRouter roomId c)
  with assms show ?thesis
    by (auto simp: resume_def after_createRouter_def getOrCreateRoom_resume_def Let_def
        holds_transport_def split: response.splits engval.splits)
next
  case (K_room room c)
  with assms show ?thesis
    by (auto simp: resume_def after_room_world split: response.splits engval.splits)
next
  case (K_plainTransport a' opts)
  with assms show ?thesis
    by (auto simp: resume_def receiver_after_transport_def Let_def holds_transport_def
        split: response.splits engval.splits)
next
  case (K_bindRtp rid)
  with assms show ?thesis
    by (auto simp: resume_def after_bindRtp_def bind_resolve_def bind_reject_def upd_receiver_def
        Let_def holds_transport_def split: response.splits engval.splits)
next
  case (K_bindRtcp rid)
  with assms show ?thesis
    by (auto simp: resume_def after_bindRtcp_def bind_resolve_def bind_reject_def upd_receiver_def
        Let_def holds_transport_def split: response.splits engval.splits)
next
  case (K_produce rid packet)
  with assms show ?thesis
    by (auto simp: resume_def after_produce_def rtp_forward_def upd_receiver_def upd_room_def
        Let_def holds_transport_def split: response.splits engval.splits)
next
  case (K_producerResume rid pr packet)
  with assms show ?thesis
    by (auto simp: resume_def after_producerResume_def rtp_forward_def upd_producer_def
        Let_def holds_transport_def split: response.splits engval.splits)
next
  case (K_webRtcTransport sid a')
  with assms show ?thesis
    by (auto simp: resume_def join_after_transport_def upd_room_def map_get_map_set
        Let_def holds_transport_def split: response.splits engval.splits)
next
  case (K_connect sid)
  with assms show ?thesis
    by (auto simp: resume_def after_connect_def split: response.splits engval.splits)
next
  case (K_sleep sid a' i caps)
  with assms show ?thesis
    by (auto simp: resume_def after_sleep_def consume_loop_def consume_found_def
        split: response.splits engval.splits option.splits)
next
  case (K_consume sid a' pr)
  with assms show ?thesis
    by (auto simp: resume_def after_consume_def consume_reply_def upd_room_def upd_consumer_def
        Let_def holds_transport_def split: response.splits engval.splits option.splits)
next
  case (K_consumerResume sid cr pr)
  with assms show ?thesis
    by (auto simp: resume_def after_consumerResume_def consume_reply_def upd_consumer_def
        Let_def holds_transport_def split: response.splits engval.splits)
next
  case (K_resumeConsumer sid cr)
  with assms show ?thesis
    by (auto simp: resume_def after_resumeConsumer_def upd_consumer_def
        Let_def holds_transport_def split: response.splits engval.splits)
qed


lemma step_keeps:
  assumes "step s ev = Some s'" and "holds_transport (sys_world s) a t"
    and "\<not> reissues (transport_id t) ev"
  shows "holds_transport (sys_world s') a t"
proof (cases ev)
  case (Ev_start roomId opts)
  with assms show ?thesis
    by (auto simp: step_def sys_world_absorb createRtpReceiver_world)
next
  case (Ev_rtp rid packet)
  with assms show ?thesis
    by (auto simp: step_def sys_world_absorb rtp_message_rooms Let_def
        intro: holds_transport_frame split: if_splits)
next
  case (Ev_rtcp rid packet)
  with assms show ?thesis
    by (auto simp: step_def sys_world_absorb rtcp_message_world Let_def split: if_splits)
next
  case (Ev_ws sid msg)
  with assms show ?thesis
    by (auto simp: step_def sys_world_absorb ws_message_world)
next
  case (Ev_answer i r)
  with assms obtain out where out: "resume (sys_world s) (pending s ! i) r = Some out"
    and s': "s' = absorb (s\<lparr>pending := remove_nth i (pending s)\<rparr>) out"
    by (auto simp: step_def Let_def split: if_splits option.splits)
  from assms(3) Ev_answer
  have "\<forall>t'. r = Resolved (V_webrtc t') \<longrightarrow> transport_id t' \<noteq> transport_id t"
    by auto
  from resume_keeps [OF out assms(2) this] s' show ?thesis
    by (simp add: sys_world_absorb)
qed

lemma run_keeps:
  assumes "run s evs = Some s'" and "holds_transport (sys_world s) a t"
    and "\<forall>ev. ev \<in> set evs \<longrightarrow> \<not> reissues (transport_id t) ev"
  shows "holds_transport (sys_world s') a t"
  using assms
proof (induction evs arbitrary: s)
  case Nil
  then show ?case by simp
next
  case (Cons ev evs)
  from Cons.prems(1) obtain s1 where s1: "step s ev = Some s1" and rest: "run s1 evs = Some s'"
    by (auto split: option.splits)
  from step_keeps [OF s1 Cons.prems(2)] Cons.prems(3) have "holds_transport (sys_world s1) a t"
    by simp
  from Cons.IH [OF rest this] Cons.prems(3) show ?case
    by simp
qed

lemma map_get_values: "map_get m k = Some v \<Longrightarrow> v \<in> set (map_values m)"
  by (auto simp: map_get_def map_values_def dest: map_of_SomeD intro: rev_image_eqI)

lemma map_values_map_set:
  "x \<in> set (map_values (map_set m k v)) \<Longrightarrow> x = v \<or> x \<in> set (map_values m)"
  by (induction m) (force simp: map_values_def split: if_splits)+

lemma call_getOrCreateRoom_allocated:
  "registry_allocated w \<Longrightarrow> out_allocated w (call_getOrCreateRoom w roomId c)"
  by (cases "map_get (rooms w) roomId")
     (auto simp: out_allocated_def registry_allocated_def call_getOrCreateRoom_def
        getOrCreateRoom_enter_def dest: map_get_values split: list.splits)

lemma ws_message_allocated: "registry_allocated w \<Longrightarrow> out_allocated w (ws_message w sid msg)"
  by (auto simp: ws_message_def call_getOrCreateRoom_allocated split: wsmsg.splits)
     (auto simp: out_allocated_def registry_allocated_def)

lemma rtp_message_allocated: "registry_allocated w \<Longrightarrow> out_allocated w (rtp_message w rid packet)"
  by (auto simp: out_allocated_def registry_allocated_def rtp_message_def rtp_forward_def
      upd_receiver_def Let_def split: option.splits)

lemma rtcp_message_allocated: "registry_allocated w \<Longrightarrow> out_allocated w (rtcp_message w rid packet)"
  by (auto simp: out_allocated_def registry_allocated_def rtcp_message_def Let_def)

lemma after_room_allocated:
  assumes "registry_allocated w" and "\<forall>a. room = Some a \<longrightarrow> a < next_room w"
  shows "out_allocated w (after_room w room c)"
  using assms
  by (auto simp: out_allocated_def registry_allocated_def after_room_def receiver_after_room_def
      join_after_room_def caps_after_room_def consume_after_room_def consume_loop_def
      consume_found_def resume_after_room_def split: caller.splits option.splits)

lemma resume_allocated:
  assumes "resume w k r = Some out" and "registry_allocated w"
    and "\<forall>a. a \<in> set (kont_rooms k) \<longrightarrow> a < next_room w"
  shows "out_allocated w out"
proof (cases k)
  case (K_createRouter roomId c)
  with assms show ?thesis
    by (auto simp: resume_def after_createRouter_def getOrCreateRoom_resume_def Let_def
        out_allocated_def registry_allocated_def map_get_map_set less_Suc_eq
        dest!: map_values_map_set split: response.splits engval.splits if_splits)
next
  case (K_room room c)
  with assms show ?thesis
    by (cases room) (auto simp: resume_def after_room_allocated split: response.splits engval.splits if_splits)
next
  case (K_plainTransport a' opts)
  with assms show ?thesis
    by (auto simp: resume_def receiver_after_transport_def Let_def out_allocated_def
        registry_allocated_def split: response.splits engval.splits if_splits)
next
  case (K_bindRtp rid)
  with assms show ?thesis
    by (auto simp: resume_def after_bindRtp_def bind_resolve_def bind_reject_def upd_receiver_def
        Let_def out_allocated_def registry_allocated_def split: response.splits engval.splits if_splits)
next
  case (K_bindRtcp rid)
  with assms show ?thesis
    by (auto simp: resume_def after_bindRtcp_def bind_resolve_def bind_reject_def upd_receiver_def
        Let_def out_allocated_def registry_allocated_def split: response.splits engval.splits if_splits)
next
  case (K_produce rid packet)
  with assms show ?thesis
    by (auto simp: resume_def after_produce_def rtp_forward_def upd_receiver_def upd_room_def
        Let_def out_allocated_def registry_allocated_def split: response.splits engval.splits if_splits)
next
  case (K_producerResume rid pr packet)
  with assms show ?thesis
    by (auto simp: resume_def after_producerResume_def rtp_forward_def upd_producer_def
        Let_def out_allocated_def registry_allocated_def split: response.splits engval.splits if_splits)
next
  case (K_webRtcTransport sid a')
  with assms show ?thesis
    by (auto simp: resume_def join_after_transport_def upd_room_def
        Let_def out_allocated_def registry_allocated_def split: response.splits engval.splits if_splits)
next
  case (K_connect sid)
  with assms show ?thesis
    by (auto simp: resume_def after_connect_def out_allocated_def registry_allocated_def
        split: response.splits engval.splits if_splits)
next
  case (K_sleep sid a' i caps)
  with assms show ?thesis
    by (auto simp: resume_def after_sleep_def consume_loop_def consume_found_def
        out_allocated_def registry_allocated_def
        split: response.splits engval.splits option.splits if_splits)
next
  case (K_consume sid a' pr)
  with assms show ?thesis
    by (auto simp: resume_def after_consume_def consume_reply_def upd_room_def upd_consumer_def
        Let_def out_allocated_def registry_allocated_def
        split: response.splits engval.splits option.splits if_splits)
next
  case (K_consumerResume sid cr pr)
  with assms show ?thesis
    by (auto simp: resume_def after_consumerResume_def consume_reply_def upd_consumer_def
        Let_def out_allocated_def registry_allocated_def split: response.splits engval.splits if_splits)
next
  case (K_resumeConsumer sid cr)
  with assms show ?thesis
    by (auto simp: resume_def after_resumeConsumer_def upd_consumer_def
        Let_def out_allocated_def registry_allocated_def split: response.splits engval.splits if_splits)
qed

lemma absorb_allocated:
  assumes "rooms_allocated s" and "out_allocated (sys_world s) out"
    and "set ks \<subseteq> set (pending s)"
  shows "rooms_allocated (absorb (s\<lparr>pending := ks\<rparr>) out)"
  using assms
  by (cases out) (fastforce simp: rooms_allocated_def out_allocated_def absorb_def)

lemma absorb_allocated_same:
  assumes "rooms_allocated s" and "out_allocated (sys_world s) out"
  shows "rooms_allocated (absorb s out)"
  using absorb_allocated [OF assms, of "pending s"] by simp

lemma rooms_allocated_registry: "rooms_allocated s \<Longrightarrow> registry_allocated (sys_world s)"
  by (simp add: rooms_allocated_def registry_allocated_def)

lemma step_allocated:
  assumes "step s ev = Some s'" and "rooms_allocated s"
  shows "rooms_allocated s'"
proof (cases ev)
  case (Ev_start roomId opts)
  with assms show ?thesis
    by (auto simp: step_def createRtpReceiver_def call_getOrCreateRoom_allocated
        rooms_allocated_registry intro!: absorb_allocated_same)
next
  case (Ev_rtp rid packet)
  with assms show ?thesis
    by (auto simp: step_def rtp_message_allocated rooms_allocated_registry Let_def
        split: if_splits intro!: absorb_allocated_same)
next
  case (Ev_rtcp rid packet)
  with assms show ?thesis
    by (auto simp: step_def rtcp_message_allocated rooms_allocated_registry Let_def
        split: if_splits intro!: absorb_allocated_same)
next
  case (Ev_ws sid msg)
  with assms show ?thesis
    by (auto simp: step_def ws_message_allocated rooms_allocated_registry intro!: absorb_allocated_same)
next
  case (Ev_answer i r)
  with assms obtain out where i: "i < length (pending s)"
    and out: "resume (sys_world s) (pending s ! i) r = Some out"
    and s': "s' = absorb (s\<lparr>pending := remove_nth i (pending s)\<rparr>) out"
    by (auto simp: step_def Let_def split: if_splits option.splits)
  from i assms(2) have "\<forall>a. a \<in> set (kont_rooms (pending s ! i)) \<longrightarrow> a < next_room (sys_world s)"
    by (auto simp: rooms_allocated_def)
  from resume_allocated [OF out rooms_allocated_registry [OF assms(2)] this]
  have "out_allocated (sys_world s) out" .
  from absorb_allocated [OF assms(2) this set_remove_nth] s' show ?thesis
    by simp
qed

lemma run_allocated:
  assumes "run s evs = Some s'" and "rooms_allocated s"
  shows "rooms_allocated s'"
  using assms
  by (induction evs arbitrary: s) (auto split: option.splits dest: step_allocated)

lemma boot_allocated: "rooms_allocated (boot wk)"
  by (simp add: rooms_allocated_def boot_def boot_world_def map_values_def)

lemma join_after_transport_stores:
  "session_transport (fst (join_after_transport w sid a t)) sid = Some t
   \<and> map_get (transports (room_heap (fst (join_after_transport w sid a t)) a)) (transport_id t)
       = Some t
   \<and> next_room (fst (join_after_transport w sid a t)) = next_room w"
  by (simp add: join_after_transport_def upd_room_def map_get_map_set Let_def)

lemma join_after_transport_keeps:
  assumes "holds_transport w b t1" and "transport_id t1 \<noteq> transport_id t2"
  shows "holds_transport (fst (join_after_transport w sid a t2)) b t1"
  using assms
  by (auto simp: join_after_transport_def upd_room_def map_get_map_set Let_def holds_transport_def)

text \<open>
  Claim C8. When the engine answers a \<open>join\<close> of session \<open>sid\<close> with the transport
  \<open>t2\<close>, the variable \<open>transport\<close> of the session becomes \<open>t2\<close>, whatever it was
  before, \<open>t2\<close> is entered in the \<open>transports\<close> map of the room, and a transport
  \<open>t1\<close> with another id that a room holds is still held. In every run of the server,
  a transport that an allocated room holds stays in the map of that room under its
  id, as long as the engine does not hand out its id a second time. So, from
  start-up on, the transport that answers any suspended \<open>join\<close> is in the map of the
  room of that \<open>join\<close> after every continuation of the run.
\<close>

theorem transports_never_removed:
  "session_transport (fst (join_after_transport w sid a t2)) sid = Some t2
   \<and> map_get (transports (room_heap (fst (join_after_transport w sid a t2)) a)) (transport_id t2)
       = Some t2
   \<and> (holds_transport w b t1 \<and> transport_id t1 \<noteq> transport_id t2 \<longrightarrow>
        holds_transport (fst (join_after_transport w sid a t2)) b t1)
   \<and> (run s evs = Some s' \<and> holds_transport (sys_world s) b t
        \<and> (\<forall>ev. ev \<in> set evs \<longrightarrow> \<not> reissues (transport_id t) ev) \<longrightarrow>
        holds_transport (sys_world s') b t)
   \<and> (run (boot wk) before = Some mid \<and> j < length (pending mid)
        \<and> pending mid ! j = K_webRtcTransport sid0 a0
        \<and> run mid (Ev_answer j (Resolved (V_webrtc t)) # later) = Some final
        \<and> (\<forall>ev. ev \<in> set later \<longrightarrow> \<not> reissues (transport_id t) ev) \<longrightarrow>
        holds_transport (sys_world final) a0 t)"
proof -
  have lifetime: "holds_transport (sys_world final) a0 t"
    if boot: "run (boot wk) before = Some mid" and j: "j < length (pending mid)"
      and k: "pending mid ! j = K_webRtcTransport sid0 a0"
      and rest: "run mid (Ev_answer j (Resolved (V_webrtc t)) # later) = Some final"
      and fresh: "\<forall>ev. ev \<in> set later \<longrightarrow> \<not> reissues (transport_id t) ev"
  proof -
    from run_allocated [OF boot boot_allocated] j k have alloc: "a0 < next_room (sys_world mid)"
      by (auto simp: rooms_allocated_def dest!: nth_mem)
    from rest obtain mid' where mid': "step mid (Ev_answer j (Resolved (V_webrtc t))) = Some mid'"
      and tail: "run mid' later = Some final"
      by (auto split: option.splits)
    from mid' j k have "sys_world mid' = fst (join_after_transport (sys_world mid) sid0 a0 t)"
      by (auto simp: step_def resume_def sys_world_absorb Let_def)
    with alloc have "holds_transport (sys_world mid') a0 t"
      by (simp add: holds_transport_def join_after_transport_stores)
    from run_keeps [OF tail this fresh] show ?thesis .
  qed
  from join_after_transport_stores [of w sid a t2]
    join_after_transport_keeps [of w b t1 t2 sid a]
    run_keeps [of s evs s' b t] lifetime
  show ?thesis
    by blast
qed

theorem transports_never_removed_witness:
  "run (boot 7) first_join \<noteq> None
   \<and> run (the (run (boot 7) first_join))
        (Ev_answer 0 (Resolved (V_webrtc client_transport)) # second_join) \<noteq> None
   \<and> holds_transport
        (sys_world (the (run (the (run (boot 7) first_join))
           (Ev_answer 0 (Resolved (V_webrtc client_transport)) # second_join))))
        0 client_transport
   \<and> session_transport
        (sys_world (the (run (the (run (boot 7) first_join))
           (Ev_answer 0 (Resolved (V_webrtc client_transport)) # second_join))))
        1 = Some second_transport"
proof -
  let ?s1 = "the (run (boot 7) first_join)"
  let ?evs = "Ev_answer 0 (Resolved (V_webrtc client_transport)) # second_join"
  let ?s2 = "the (run ?s1 ?evs)"
  have first: "run (boot 7) first_join = Some ?s1"
    and pend: "pending ?s1 = [K_webRtcTransport 1 0]"
    by (simp_all add: first_join_def boot_def boot_world_def message_def run_defs room_defs
        ws_message_def js_or_def after_room_def join_after_room_def)
  have second: "run ?s1 ?evs = Some ?s2"
    and session: "session_transport (sys_world ?s2) 1 = Some second_transport"
    by (simp_all add: first_join_def second_join_def boot_def boot_world_def message_def
        run_defs room_defs ws_message_def js_or_def after_room_def join_after_room_def
        join_after_transport_def upd_room_def)
  have fresh: "\<forall>ev. ev \<in> set second_join \<longrightarrow> \<not> reissues (transport_id client_transport) ev"
    by (simp add: second_join_def message_def client_transport_def second_transport_def)
  from pend have j: "0 < length (pending ?s1)" and k: "pending ?s1 ! 0 = K_webRtcTransport 1 0"
    by simp_all
  from transports_never_removed [where wk = 7 and before = first_join and mid = ?s1
      and j = 0 and ?sid0.0 = 1 and ?a0.0 = 0 and t = client_transport and later = second_join
      and final = ?s2] first j k second fresh
  have held: "holds_transport (sys_world ?s2) 0 client_transport"
    by blast
  from first have ran: "run (boot 7) first_join \<noteq> None"
    by (metis option.distinct(1))
  from second have went_on: "run ?s1 ?evs \<noteq> None"
    by (metis option.distinct(1))
  from ran went_on held session show ?thesis
    by blast
qed

section \<open>SSRC detection\<close>

text \<open>
  What the handler of the RTP socket does for an SSRC that is not 0. The first
  datagram of at least 12 bytes records the SSRC and makes one request for a
  producer.
\<close>

lemma readUInt32BE_header:
  assumes "12 \<le> length packet"
  shows "\<exists>v. readUInt32BE packet 8 = Some v"
  using assms by (simp add: readUInt32BE_def)

lemma first_datagram_requests_producer:
  assumes "rcv_ssrc (receivers w rid) = None" and "12 \<le> length packet"
    and "readUInt32BE packet 8 = Some v"
  shows "snd (snd (rtp_message w rid packet))
           = Await [(Produce (rcv_transport (receivers w rid)) (rcv_kind (receivers w rid))
                       (codecParams (receivers w rid)) v, K_produce rid packet)]
         \<and> rcv_ssrc (receivers (fst (rtp_message w rid packet)) rid) = Some v"
  using assms by (simp add: rtp_message_def upd_receiver_def codecParams_def Let_def)

text \<open>
  When the engine answers, the producer is in the map of the room under its id and
  under the SSRC, it is the producer of the receiver, and it is resumed exactly if it
  came paused.
\<close>

lemma produced_stored_twice:
  assumes "rcv_ssrc (receivers w rid) = Some v"
  shows "map_get (producers (room_heap (fst (after_produce w rid packet p))
                     (rcv_room (receivers w rid)))) (ById (producer_id p))
           = Some (next_producer w)
         \<and> map_get (producers (room_heap (fst (after_produce w rid packet p))
                     (rcv_room (receivers w rid)))) (BySsrc v)
           = Some (next_producer w)
         \<and> producer_heap (fst (after_produce w rid packet p)) (next_producer w) = p
         \<and> rcv_producer (receivers (fst (after_produce w rid packet p)) rid)
           = Some (next_producer w)
         \<and> (producer_paused p \<longrightarrow>
              snd (snd (after_produce w rid packet p))
                = Await [(ProducerResume (next_producer w),
                          K_producerResume rid (next_producer w) packet)])
         \<and> (\<not> producer_paused p \<longrightarrow> snd (snd (after_produce w rid packet p)) = Done)
         \<and> \<not> producer_paused
               (producer_heap (fst (after_producerResume w' rid pr packet)) pr)"
  using assms
  by (simp add: after_produce_def after_producerResume_def rtp_forward_def upd_receiver_def
      upd_room_def upd_producer_def ssrc_key_def map_get_map_set Let_def)

text \<open>Once the SSRC of a receiver is not 0, a datagram makes no request.\<close>

lemma nonzero_ssrc_never_again:
  assumes "rcv_ssrc (receivers w rid) = Some v" and "v \<noteq> 0"
  shows "rtp_message w rid packet
           = rtp_forward (upd_receiver rid (\<lambda>rc. rc\<lparr>packetCount := packetCount rc + 1\<rparr>) w)
               rid packet"
  using assms by (simp add: rtp_message_def upd_receiver_def Let_def)

lemma resume_ssrc_fixed:
  assumes "resume w k r = Some out" and "ssrc_fixed w rid v"
  shows "ssrc_fixed (fst out) rid v"
proof (cases k)
  case (K_createRouter roomId c)
  with assms show ?thesis
    by (auto simp: resume_def after_createRouter_def getOrCreateRoom_resume_def Let_def
        ssrc_fixed_def split: response.splits engval.splits)
next
  case (K_room room c)
  with assms show ?thesis
    by (auto simp: resume_def after_room_world split: response.splits engval.splits)
next
  case (K_plainTransport a' opts)
  with assms show ?thesis
    by (auto simp: resume_def receiver_after_transport_def Let_def ssrc_fixed_def
        split: response.splits engval.splits)
next
  case (K_bindRtp rid')
  with assms show ?thesis
    by (auto simp: resume_def after_bindRtp_def bind_resolve_def bind_reject_def upd_receiver_def
        Let_def ssrc_fixed_def split: response.splits engval.splits if_splits)
next
  case (K_bindRtcp rid')
  with assms show ?thesis
    by (auto simp: resume_def after_bindRtcp_def bind_resolve_def bind_reject_def upd_receiver_def
        Let_def ssrc_fixed_def split: response.splits engval.splits if_splits)
next
  case (K_produce rid' packet)
  with assms show ?thesis
    by (auto simp: resume_def after_produce_def rtp_forward_def upd_receiver_def upd_room_def
        Let_def ssrc_fixed_def split: response.splits engval.splits if_splits)
next
  case (K_producerResume rid' pr packet)
  with assms show ?thesis
    by (auto simp: resume_def after_producerResume_def rtp_forward_def upd_producer_def
        Let_def ssrc_fixed_def split: response.splits engval.splits)
next
  case (K_webRtcTransport sid a')
  with assms show ?thesis
    by (auto simp: resume_def join_after_transport_def upd_room_def
        Let_def ssrc_fixed_def split: response.splits engval.splits)
next
  case (K_connect sid)
  with assms show ?thesis
    by (auto simp: resume_def after_connect_def split: response.splits engval.splits)
next
  case (K_sleep sid a' i caps)
  with assms show ?thesis
    by (auto simp: resume_def after_sleep_def consume_loop_def consume_found_def
        split: response.splits engval.splits option.splits)
next
  case (K_consume sid a' pr)
  with assms show ?thesis
    by (auto simp: resume_def after_consume_def consume_reply_def upd_room_def upd_consumer_def
        Let_def ssrc_fixed_def split: response.splits engval.splits option.splits if_splits)
next
  case (K_consumerResume sid cr pr)
  with assms show ?thesis
    by (auto simp: resume_def after_consumerResume_def consume_reply_def upd_consumer_def
        Let_def ssrc_fixed_def split: response.splits engval.splits)
next
  case (K_resumeConsumer sid cr)
  with assms show ?thesis
    by (auto simp: resume_def after_resumeConsumer_def upd_consumer_def
        Let_def ssrc_fixed_def split: response.splits engval.splits)
qed

lemma rtp_message_ssrc_fixed:
  assumes "ssrc_fixed w rid v"
  shows "ssrc_fixed (fst (rtp_message w rid' packet)) rid v"
  using assms
  by (auto simp: ssrc_fixed_def rtp_message_def rtp_forward_def upd_receiver_def Let_def
      split: option.splits)

lemma step_ssrc_fixed:
  assumes "step s ev = Some s'" and "ssrc_fixed (sys_world s) rid v"
  shows "ssrc_fixed (sys_world s') rid v"
proof (cases ev)
  case (Ev_start roomId opts)
  with assms show ?thesis
    by (auto simp: step_def sys_world_absorb createRtpReceiver_world)
next
  case (Ev_rtp rid' packet)
  with assms show ?thesis
    by (auto simp: step_def sys_world_absorb rtp_message_ssrc_fixed Let_def split: if_splits)
next
  case (Ev_rtcp rid' packet)
  with assms show ?thesis
    by (auto simp: step_def sys_world_absorb rtcp_message_world Let_def split: if_splits)
next
  case (Ev_ws sid msg)
  with assms show ?thesis
    by (auto simp: step_def sys_world_absorb ws_message_world)
next
  case (Ev_answer i r)
  with assms obtain out where out: "resume (sys_world s) (pending s ! i) r = Some out"
    and s': "s' = absorb (s\<lparr>pending := remove_nth i (pending s)\<rparr>) out"
    by (auto simp: step_def Let_def split: if_splits option.splits)
  from resume_ssrc_fixed [OF out assms(2)] s' show ?thesis
    by (simp add: sys_world_absorb)
qed

lemma run_ssrc_fixed:
  assumes "run s evs = Some s'" and "ssrc_fixed (sys_world s) rid v"
  shows "ssrc_fixed (sys_world s') rid v"
  using assms
  by (induction evs arbitrary: s) (auto split: option.splits dest: step_ssrc_fixed)

text \<open>
  So for an SSRC \<open>v\<close> that is not 0, no datagram that the receiver gets later, after
  any run of the server, makes a request or suspends a handler.
\<close>

lemma nonzero_ssrc_single_request:
  assumes "run s evs = Some s1" and "ssrc_fixed (sys_world s) rid v"
    and "step s1 (Ev_rtp rid packet) = Some s2"
  shows "calls s2 = calls s1 \<and> pending s2 = pending s1 \<and> ssrc_fixed (sys_world s2) rid v"
proof -
  from run_ssrc_fixed [OF assms(1,2)] have fixed: "ssrc_fixed (sys_world s1) rid v" .
  then have "rtp_message (sys_world s1) rid packet
      = rtp_forward (upd_receiver rid (\<lambda>rc. rc\<lparr>packetCount := packetCount rc + 1\<rparr>) (sys_world s1))
          rid packet"
    by (intro nonzero_ssrc_never_again [of _ _ v]) (simp_all add: ssrc_fixed_def)
  with assms(3) have "calls s2 = calls s1 \<and> pending s2 = pending s1"
    by (auto simp: step_def absorb_def rtp_forward_def Let_def split: if_splits)
  with step_ssrc_fixed [OF assms(3) fixed] show ?thesis
    by simp
qed

text \<open>
  Claim C2 fails for the SSRC 0, which \<open>!ssrc\<close> takes for "not detected yet". The
  default receiver listens; two datagrams of a stream with SSRC 0 arrive, and the
  engine answers each request. The second datagram makes a second request for a
  producer, and its answer \<open>p2\<close> replaces \<open>p1\<close> under the key 0 of the map and as the
  producer of the receiver.
\<close>

theorem zero_ssrc_second_producer:
  "run (boot 7) zero_ssrc_twice \<noteq> None
   \<and> calls (the (run (boot 7) zero_ssrc_twice))
       = [CreateRouter 7, Settled, CreatePlainTransport router_A, BindSocket 5004,
          BindSocket 5005,
          Produce ingest_transport ''video'' h264 0,
          Produce ingest_transport ''video'' h264 0]
   \<and> producers (room_heap (sys_world (the (run (boot 7) zero_ssrc_twice))) 0)
       = [(ById ''p1'', 0), (BySsrc 0, 1), (ById ''p2'', 1)]
   \<and> producer_heap (sys_world (the (run (boot 7) zero_ssrc_twice))) 0 = producer_1
   \<and> producer_heap (sys_world (the (run (boot 7) zero_ssrc_twice))) 1 = producer_2
   \<and> rcv_producer (receivers (sys_world (the (run (boot 7) zero_ssrc_twice))) 0) = Some 1"
  by (simp add: zero_ssrc_twice_def scenario_defs run_defs room_defs receiver_defs rtp_defs)

section \<open>Forwarding\<close>

text \<open>
  An RTCP datagram is sent on to the local RTCP port of the ingest transport, whatever
  the state of the receiver (a port is never 0).
\<close>

lemma rtcp_forwarded:
  assumes "rtcpPort (receivers w rid) \<noteq> 0"
  shows "rtcp_message w rid packet = (w, [RtcpForward packet (rtcpPort (receivers w rid))], Done)"
  using assms by (simp add: rtcp_message_def Let_def)

text \<open>Without a producer the handler of the RTP socket forwards nothing.\<close>

lemma rtp_not_forwarded_without_producer:
  assumes "rcv_producer (receivers w rid) = None"
  shows "fst (snd (rtp_message w rid packet)) = []"
  using assms
  by (simp add: rtp_message_def rtp_forward_def upd_receiver_def Let_def split: option.splits)

text \<open>
  With a producer, a datagram that does not start a detection (it is shorter than 12
  bytes, or the SSRC of the receiver is not 0) is forwarded as it came.
\<close>

lemma rtp_forwarded_with_producer:
  assumes "rcv_producer (receivers w rid) \<noteq> None" and "rtpPort (receivers w rid) \<noteq> 0"
    and "length packet < 12 \<or> \<not> not_ssrc (rcv_ssrc (receivers w rid))"
  shows "snd (rtp_message w rid packet) = ([RtpForward packet (rtpPort (receivers w rid))], Done)"
  using assms
  by (auto simp: rtp_message_def rtp_forward_def upd_receiver_def Let_def)

text \<open>
  Claim C5 fails for a stream with SSRC 0. After the first datagram the receiver has
  its producer, and that datagram has been forwarded to port 40000. The second
  datagram has 12 bytes and \<open>!ssrc\<close> still holds, so the handler asks for a producer
  again instead of going to line 57; the engine rejects the request, the handler
  ends, and the second datagram is never forwarded although a producer exists.
\<close>

theorem zero_ssrc_datagram_dropped:
  "run (boot 7) (take 8 zero_ssrc_refused) \<noteq> None
   \<and> rcv_producer (receivers (sys_world (the (run (boot 7) (take 8 zero_ssrc_refused)))) 0)
       = Some 0
   \<and> rtpPort (receivers (sys_world (the (run (boot 7) (take 8 zero_ssrc_refused)))) 0) = 40000
   \<and> trace (the (run (boot 7) (take 8 zero_ssrc_refused))) = [RtpForward zero_ssrc_1 40000]
   \<and> run (boot 7) zero_ssrc_refused \<noteq> None
   \<and> trace (the (run (boot 7) zero_ssrc_refused)) = [RtpForward zero_ssrc_1 40000]
   \<and> pending (the (run (boot 7) zero_ssrc_refused)) = []
   \<and> packetCount (receivers (sys_world (the (run (boot 7) zero_ssrc_refused))) 0) = 2"
  by (simp add: zero_ssrc_refused_def scenario_defs run_defs room_defs receiver_defs rtp_defs)

end
